theory Spec2Isabelle
  imports Complex_Main
begin

section \<open>Conventions\<close>

text \<open>
  A shallow embedding of the option-strategy simulator (\<^verbatim>\<open>simulator/position.py\<close>,
  \<^verbatim>\<open>status.py\<close>, \<^verbatim>\<open>action.py\<close>, \<^verbatim>\<open>simulator.py\<close>, \<^verbatim>\<open>chain.py\<close>).

  \<^item> A Python \<^verbatim>\<open>float\<close> that comes from market data or from a position is a \<^typ>\<open>real\<close>:
    rounding and overflow are not modelled.
  \<^item> A \<^verbatim>\<open>pd.Timestamp\<close> is an \<^typ>\<open>int\<close> (seconds), a \<^verbatim>\<open>pd.Timedelta\<close> likewise.
  \<^item> A Python exception is a value \<open>Inl e\<close> of \<open>error + 'a\<close>.
  \<^item> Record fields carry a short prefix (\<open>pos_\<close>, \<open>act_\<close>, \<open>row_\<close>, \<open>q_\<close>, \<open>pr_\<close>, \<open>oc_\<close>, \<open>tl_\<close>, \<open>sim_\<close>) so that
    the source's parameter names (\<open>spot\<close>, \<open>strike\<close>, \<open>step\<close>) stay free for variables.
\<close>

datatype error = ValueError | IndexError | ZeroDivisionError | AssertionError | LibraryError

datatype option_type = Call | Put

section \<open>Floats that need not be finite\<close>

text \<open>
  Some values of the surface engine can be \<^verbatim>\<open>nan\<close> or \<^verbatim>\<open>inf\<close> without any exception being
  raised (numpy arithmetic warns, and the module silences warnings): the mean of an empty
  snapshot, a slope over two equal knots, a division by a zero tenor. Such values have
  type \<open>fl\<close>. The operations follow IEEE 754 on exact reals; a zero is the positive zero,
  which is what \<open>x - x\<close> and an integer \<open>0\<close> give.
\<close>

datatype fl = Fin real | PInf | MInf | NaN

fun fl_neg :: "fl \<Rightarrow> fl" where
  "fl_neg (Fin a) = Fin (- a)"
| "fl_neg PInf = MInf"
| "fl_neg MInf = PInf"
| "fl_neg NaN = NaN"

fun fl_add :: "fl \<Rightarrow> fl \<Rightarrow> fl" where
  "fl_add (Fin a) (Fin b) = Fin (a + b)"
| "fl_add NaN _ = NaN"
| "fl_add _ NaN = NaN"
| "fl_add PInf MInf = NaN"
| "fl_add MInf PInf = NaN"
| "fl_add PInf _ = PInf"
| "fl_add _ PInf = PInf"
| "fl_add MInf _ = MInf"
| "fl_add _ MInf = MInf"

definition fl_sub :: "fl \<Rightarrow> fl \<Rightarrow> fl" where
  "fl_sub a b = fl_add a (fl_neg b)"

fun fl_sgn :: "fl \<Rightarrow> int" where
  "fl_sgn (Fin a) = (if a > 0 then 1 else if a < 0 then - 1 else 0)"
| "fl_sgn PInf = 1"
| "fl_sgn MInf = - 1"
| "fl_sgn NaN = 0"

fun fl_mul :: "fl \<Rightarrow> fl \<Rightarrow> fl" where
  "fl_mul (Fin a) (Fin b) = Fin (a * b)"
| "fl_mul NaN _ = NaN"
| "fl_mul _ NaN = NaN"
| "fl_mul a b =
     (if fl_sgn a * fl_sgn b > 0 then PInf else if fl_sgn a * fl_sgn b < 0 then MInf else NaN)"

fun fl_div :: "fl \<Rightarrow> fl \<Rightarrow> fl" where
  "fl_div (Fin a) (Fin b) =
     (if b \<noteq> 0 then Fin (a / b) else if a > 0 then PInf else if a < 0 then MInf else NaN)"
| "fl_div NaN _ = NaN"
| "fl_div _ NaN = NaN"
| "fl_div (Fin a) _ = Fin 0"
| "fl_div a (Fin b) = (if b < 0 then fl_neg a else a)"
| "fl_div _ _ = NaN"

text \<open>The comparison \<^verbatim>\<open><\<close>: false whenever a \<^verbatim>\<open>nan\<close> takes part.\<close>

fun fl_lt :: "fl \<Rightarrow> fl \<Rightarrow> bool" where
  "fl_lt (Fin a) (Fin b) = (a < b)"
| "fl_lt NaN _ = False"
| "fl_lt _ NaN = False"
| "fl_lt PInf _ = False"
| "fl_lt _ MInf = False"
| "fl_lt _ _ = True"

text \<open>
  Python's \<^verbatim>\<open>min(a, b)\<close> keeps \<open>a\<close> unless \<^verbatim>\<open>b < a\<close>, and \<^verbatim>\<open>max(a, b)\<close> keeps \<open>a\<close> unless
  \<^verbatim>\<open>b > a\<close>.
\<close>

definition py_min :: "fl \<Rightarrow> fl \<Rightarrow> fl" where
  "py_min a b = (if fl_lt b a then b else a)"

definition py_max :: "fl \<Rightarrow> fl \<Rightarrow> fl" where
  "py_max a b = (if fl_lt a b then b else a)"

text \<open>\<^verbatim>\<open>math.sqrt\<close>: a domain error below zero, \<^verbatim>\<open>nan\<close> and \<^verbatim>\<open>inf\<close> pass through.\<close>

fun math_sqrt :: "fl \<Rightarrow> error + fl" where
  "math_sqrt (Fin a) = (if a < 0 then Inl ValueError else Inr (Fin (sqrt a)))"
| "math_sqrt PInf = Inr PInf"
| "math_sqrt MInf = Inl ValueError"
| "math_sqrt NaN = Inr NaN"

text \<open>\<^verbatim>\<open>Series.mean()\<close>: \<^verbatim>\<open>nan\<close> for an empty series.\<close>

definition mean :: "real list \<Rightarrow> fl" where
  "mean xs = (if xs = [] then NaN else Fin (sum_list xs / real (length xs)))"

section \<open>chain.py: data\<close>

datatype side = Bid | Mark | Ask

text \<open>
  One row of the quote table. The columns \<^verbatim>\<open>iv_ratio\<close> and \<^verbatim>\<open>spot_ratio\<close> are optional in the
  input and filled with a constant by the constructors when absent; a row here has them.
\<close>

record Quote =
  q_timestamp :: int
  q_expiration :: int
  q_type :: option_type
  q_strike :: real
  q_bid_price :: real
  q_mark_price :: real
  q_ask_price :: real
  q_underlying_price :: real
  q_iv_ratio :: real
  q_spot_ratio :: real

record OptionChain =
  oc_chain :: "Quote list"
  oc_iv_margin :: real
  oc_default_iv :: real
  oc_spot :: fl
  oc_rf :: real

definition OptionChain_init :: "Quote list \<Rightarrow> real \<Rightarrow> real \<Rightarrow> real \<Rightarrow> OptionChain" where
  "OptionChain_init chain default_iv iv_margin risk_free_rate =
     \<lparr>oc_chain = chain, oc_iv_margin = iv_margin, oc_default_iv = default_iv,
      oc_spot = mean (map (\<lambda>q. q_underlying_price q * q_spot_ratio q) chain),
      oc_rf = risk_free_rate\<rparr>"

record OptionChainTimeline =
  tl_chain :: "Quote list"
  tl_default_iv :: real
  tl_iv_margin :: real

definition get_timestamp_chain ::
  "OptionChainTimeline \<Rightarrow> int \<Rightarrow> real \<Rightarrow> real option \<times> OptionChain" where
  "get_timestamp_chain ctl timestamp risk_free_rate =
     (let chain = filter (\<lambda>q. q_timestamp q = timestamp) (tl_chain ctl);
          spot = (if length chain > 0
                  then Some (sum_list (map (\<lambda>q. q_spot_ratio q * q_underlying_price q) chain)
                               / real (length chain))
                  else None)
      in (spot, OptionChain_init chain (tl_default_iv ctl) (tl_iv_margin ctl) risk_free_rate))"

section \<open>chain.py: interpolation\<close>

definition bind_err :: "error + 'a \<Rightarrow> ('a \<Rightarrow> error + 'b) \<Rightarrow> error + 'b" where
  "bind_err m f = (case m of Inl e \<Rightarrow> Inl e | Inr v \<Rightarrow> f v)"

text \<open>
  \<^verbatim>\<open>np.searchsorted(xs, x)\<close> on sorted knots: the number of knots below \<open>x\<close>, where \<^verbatim>\<open>nan\<close> sorts
  after every number.
\<close>

fun searchsorted :: "real list \<Rightarrow> fl \<Rightarrow> nat" where
  "searchsorted xs (Fin v) = length (filter (\<lambda>a. a < v) xs)"
| "searchsorted xs MInf = 0"
| "searchsorted xs PInf = length xs"
| "searchsorted xs NaN = length xs"

text \<open>
  \<^verbatim>\<open>_linear_interpolation(x, xs, ys)\<close> is
  \<^verbatim>\<open>interp1d(xs, ys, kind="linear", fill_value="extrapolate")(x)\<close>. The library function is
  written out as scipy defines it: arrays of different length or without entries are
  rejected with \<^verbatim>\<open>ValueError\<close>; the knots are sorted by \<open>x\<close> (stable); the segment is
  \<^verbatim>\<open>hi = clip(searchsorted(xs, x), 1, n - 1)\<close>, \<^verbatim>\<open>lo = hi - 1\<close>, so that a point outside the
  knots is on the line of the first or last segment; the value is
  \<^verbatim>\<open>slope * (x - x_lo) + y_lo\<close> with \<^verbatim>\<open>slope = (y_hi - y_lo) / (x_hi - x_lo)\<close>. With a single knot
  \<^verbatim>\<open>clip\<close> gives \<open>hi = 0\<close> and the index \<open>-1\<close> is the same knot, so the slope is \<open>0 / 0\<close>
  (scipy releases that ask for two knots raise \<^verbatim>\<open>ValueError\<close> there instead).
\<close>

definition linear_interpolation :: "fl \<Rightarrow> real list \<Rightarrow> fl list \<Rightarrow> error + fl" where
  "linear_interpolation x xs ys =
     (if length xs \<noteq> length ys \<or> xs = [] then Inl ValueError
      else
        let knots = sort_key fst (zip xs ys);
            n = length knots;
            hi = min (max (searchsorted (map fst knots) x) 1) (n - 1);
            lo = (if hi = 0 then n - 1 else hi - 1);
            x_lo = fst (knots ! lo); y_lo = snd (knots ! lo);
            x_hi = fst (knots ! hi); y_hi = snd (knots ! hi);
            slope = fl_div (fl_sub y_hi y_lo) (Fin (x_hi - x_lo))
        in Inr (fl_add (fl_mul slope (fl_sub x (Fin x_lo))) y_lo))"

text \<open>
  \<^verbatim>\<open>_interpolate_skew_line\<close>: \<^verbatim>\<open>ivs.max()\<close> of an empty array raises \<^verbatim>\<open>ValueError\<close>.
\<close>

definition interpolate_skew_line :: "fl \<Rightarrow> real list \<Rightarrow> real list \<Rightarrow> real \<Rightarrow> error + fl" where
  "interpolate_skew_line strike strikes ivs margin =
     (if ivs = [] then Inl ValueError
      else
        let max_iv = Max (set ivs); min_iv = Min (set ivs)
        in bind_err (linear_interpolation strike strikes (map Fin ivs))
             (\<lambda>iv. Inr (py_max (py_min (Fin (max_iv * margin)) iv) (Fin min_iv))))"

text \<open>
  \<^verbatim>\<open>_interpolate_term_structure\<close>. \<^verbatim>\<open>taus * ivs**2\<close> multiplies entry by entry (a single
  \<open>iv\<close> is broadcast, other length mismatches raise \<^verbatim>\<open>ValueError\<close>); the interpolated variance
  is a numpy value, so dividing it by a zero \<open>tau\<close> raises nothing.
\<close>

definition interpolate_term_structure :: "real \<Rightarrow> real list \<Rightarrow> fl list \<Rightarrow> error + fl" where
  "interpolate_term_structure tau taus ivs =
     (if length taus \<noteq> length ivs \<and> length ivs \<noteq> 1 then Inl ValueError
      else
        let ivs' = (if length ivs = 1 then replicate (length taus) (hd ivs) else ivs);
            variances = map2 (\<lambda>t iv. fl_mul (Fin t) (fl_mul iv iv)) taus ivs'
        in bind_err (linear_interpolation (Fin tau) taus variances)
             (\<lambda>variance. math_sqrt (fl_div variance (Fin tau))))"

section \<open>chain.py: the implied-volatility surface\<close>

text \<open>
  The external numerical libraries enter as parameters:
  \<^item> \<open>black_scholes flag S K t r sigma\<close> and \<open>delta_bsm flag S K t r sigma\<close> (py\_vollib);
  \<^item> \<open>imp_vol_bsm price S K t r flag\<close> (py\_vollib), which raises when a price cannot be
    inverted;
  \<^item> \<open>fsolve func x0\<close> (scipy.optimize), called without \<^verbatim>\<open>full_output\<close>: it returns the
    solution, or the last iterate when the iteration did not converge, and then only
    emits a warning (the module runs \<^verbatim>\<open>warnings.filterwarnings("ignore")\<close>). The second
    component says whether it converged; the caller gets the first component only.
\<close>

record numerics =
  black_scholes :: "option_type \<Rightarrow> fl \<Rightarrow> fl \<Rightarrow> real \<Rightarrow> real \<Rightarrow> fl \<Rightarrow> error + fl"
  delta_bsm :: "option_type \<Rightarrow> fl \<Rightarrow> fl \<Rightarrow> real \<Rightarrow> real \<Rightarrow> fl \<Rightarrow> error + fl"
  imp_vol_bsm :: "fl \<Rightarrow> fl \<Rightarrow> real \<Rightarrow> real \<Rightarrow> real \<Rightarrow> option_type \<Rightarrow> error + real"
  fsolve :: "(fl \<Rightarrow> error + fl) \<Rightarrow> fl \<Rightarrow> error + fl \<times> bool"

text \<open>A row of the price table built by \<^verbatim>\<open>_get_price_chain\<close>: columns \<open>p\<close>, \<open>K\<close>, \<open>exp\<close>, \<open>iv_ratio\<close>.\<close>

record PriceRow =
  pr_p :: fl
  pr_K :: real
  pr_exp :: int
  pr_iv_ratio :: real

definition side_price :: "side \<Rightarrow> Quote \<Rightarrow> real" where
  "side_price sd q = (case sd of Bid \<Rightarrow> q_bid_price q | Mark \<Rightarrow> q_mark_price q | Ask \<Rightarrow> q_ask_price q)"

definition get_price_chain :: "OptionChain \<Rightarrow> option_type \<Rightarrow> side \<Rightarrow> PriceRow list" where
  "get_price_chain c option_type sd =
     (let df = filter (\<lambda>q. q_type q = option_type) (oc_chain c);
          rows = map (\<lambda>q.
                   let p = fl_mul (Fin (side_price sd q)) (oc_spot c);
                       K = q_strike q * q_spot_ratio q;
                       intrinsic_value = fl_sub p (if option_type = Call
                                                   then fl_sub (oc_spot c) (Fin K)
                                                   else fl_sub (Fin K) (oc_spot c))
                   in (intrinsic_value,
                       \<lparr>pr_p = p, pr_K = K, pr_exp = q_expiration q - q_timestamp q,
                        pr_iv_ratio = q_iv_ratio q\<rparr>)) df
      in filter (\<lambda>r. pr_p r \<noteq> NaN) (map snd (filter (\<lambda>(v, r). fl_lt (Fin 0) v) rows)))"

text \<open>Python indexing \<^verbatim>\<open>xs[i]\<close>: a negative index counts from the end.\<close>

definition py_index :: "'a list \<Rightarrow> int \<Rightarrow> error + 'a" where
  "py_index xs i =
     (let j = (if i < 0 then int (length xs) + i else i)
      in if 0 \<le> j \<and> j < int (length xs) then Inr (xs ! nat j) else Inl IndexError)"

text \<open>
  \<^verbatim>\<open>exp_counts = price_chain["exp"].value_counts()\<close>,
  \<^verbatim>\<open>exp_multiple = exp_counts[exp_counts >= 2].index.values\<close>, sorted: the maturities that
  occur in at least two rows, each once, ascending.
\<close>

definition exp_multiple_of :: "PriceRow list \<Rightarrow> int list" where
  "exp_multiple_of price_chain =
     sort (filter (\<lambda>e. length (filter (\<lambda>r. pr_exp r = e) price_chain) \<ge> 2)
             (remdups (map pr_exp price_chain)))"

text \<open>Lines 78 to 85 of \<^verbatim>\<open>_get_strike_iv_interpolator\<close>: the choice of \<open>exp_lo\<close> and \<open>exp_hi\<close>.\<close>

definition bracket_exps :: "int list \<Rightarrow> int \<Rightarrow> error + int \<times> int" where
  "bracket_exps exp_multiple exp_t =
     (let earlier_exps = filter (\<lambda>e. e < exp_t) exp_multiple;
          later_exps = filter (\<lambda>e. e \<ge> exp_t) exp_multiple
      in if length earlier_exps = 0 then
           bind_err (py_index later_exps 0) (\<lambda>lo.
           bind_err (py_index later_exps 1) (\<lambda>hi. Inr (lo, hi)))
         else if length later_exps = 0 then
           bind_err (py_index earlier_exps (- 2)) (\<lambda>lo.
           bind_err (py_index earlier_exps (- 1)) (\<lambda>hi. Inr (lo, hi)))
         else
           bind_err (py_index earlier_exps (- 1)) (\<lambda>lo.
           bind_err (py_index later_exps 1) (\<lambda>hi. Inr (lo, hi))))"

text \<open>
  The two loops that invert the quotes of a bracket maturity: a quote whose inversion
  raises is skipped (\<^verbatim>\<open>except: pass\<close>), the others give a strike and an implied volatility.
\<close>

fun invert_quotes :: "numerics \<Rightarrow> fl \<Rightarrow> option_type \<Rightarrow> PriceRow list \<Rightarrow> real list \<times> real list" where
  "invert_quotes lib spot flag [] = ([], [])"
| "invert_quotes lib spot flag (row # rest) =
     (let tau = real_of_int (pr_exp row) / 31536000;
          (strikes, ivs) = invert_quotes lib spot flag rest
      in case imp_vol_bsm lib (pr_p row) spot (pr_K row) tau 0 flag of
           Inl e \<Rightarrow> (strikes, ivs)
         | Inr v \<Rightarrow> (pr_K row # strikes, v * pr_iv_ratio row # ivs))"

text \<open>
  \<^verbatim>\<open>sort_values("K")\<close> is modelled by a stable sort; pandas does not promise the order of
  rows with equal strikes.
\<close>

definition get_strike_iv_interpolator ::
  "numerics \<Rightarrow> OptionChain \<Rightarrow> PriceRow list \<Rightarrow> int \<Rightarrow> option_type \<Rightarrow> error + (fl \<Rightarrow> error + fl)" where
  "get_strike_iv_interpolator lib c price_chain exp_t option_type =
     (if length price_chain = 0 then Inr (\<lambda>strike. Inr (Fin (oc_default_iv c)))
      else
        let exp_multiple = exp_multiple_of price_chain
        in if length exp_multiple \<ge> 2 then
             bind_err (bracket_exps exp_multiple exp_t) (\<lambda>(exp_lo, exp_hi).
               let chain_lo = sort_key pr_K (filter (\<lambda>r. pr_exp r = exp_lo) price_chain);
                   chain_hi = sort_key pr_K (filter (\<lambda>r. pr_exp r = exp_hi) price_chain);
                   (strikes_lo, ivs_lo) = invert_quotes lib (oc_spot c) option_type chain_lo;
                   (strikes_hi, ivs_hi) = invert_quotes lib (oc_spot c) option_type chain_hi
               in Inr (\<lambda>strike.
                    bind_err (interpolate_skew_line strike strikes_lo ivs_lo (oc_iv_margin c)) (\<lambda>iv_lo.
                    bind_err (interpolate_skew_line strike strikes_hi ivs_hi (oc_iv_margin c)) (\<lambda>iv_hi.
                      interpolate_term_structure (real_of_int exp_t)
                        [real_of_int exp_lo, real_of_int exp_hi] [iv_lo, iv_hi]))))
           else Inr (\<lambda>strike. Inr (Fin (oc_default_iv c))))"

section \<open>chain.py: strike searches\<close>

text \<open>
  \<^verbatim>\<open>int(x)\<close> of a float: truncation toward zero. The argument is an exact real here; the
  float product \<^verbatim>\<open>days_to_maturity * 24 * 60 * 60\<close> is rounded before it is truncated, so the
  two can differ by one second where the exact product is an integer.
\<close>

definition py_int :: "real \<Rightarrow> int" where
  "py_int x = (if x \<ge> 0 then \<lfloor>x\<rfloor> else \<lceil>x\<rceil>)"

definition get_price_by_delta ::
  "numerics \<Rightarrow> OptionChain \<Rightarrow> real \<Rightarrow> real \<Rightarrow> option_type \<Rightarrow> side \<Rightarrow> error + fl \<times> fl \<times> fl" where
  "get_price_by_delta lib c delta days_to_maturity option_type sd =
     (let exp_t = py_int (days_to_maturity * 24 * 60 * 60);
          tau = real_of_int exp_t / 60 / 60 / 24 / 365.25;
          price_chain = get_price_chain c option_type sd
      in bind_err (get_strike_iv_interpolator lib c price_chain exp_t option_type) (\<lambda>iv_interp.
           let delta_interp = (\<lambda>k. bind_err (iv_interp k)
                                 (\<lambda>iv. delta_bsm lib option_type (oc_spot c) k tau (oc_rf c) iv))
           in bind_err (fsolve lib (\<lambda>k. bind_err (delta_interp k) (\<lambda>d. Inr (fl_sub d (Fin delta))))
                          (oc_spot c)) (\<lambda>(strike, converged).
              bind_err (iv_interp strike) (\<lambda>iv.
              bind_err (black_scholes lib option_type (oc_spot c) strike tau (oc_rf c) iv) (\<lambda>price.
                Inr (price, strike, iv))))))"

definition get_strike_by_price ::
  "numerics \<Rightarrow> OptionChain \<Rightarrow> real \<Rightarrow> real \<Rightarrow> option_type \<Rightarrow> side \<Rightarrow> error + fl \<times> fl \<times> fl" where
  "get_strike_by_price lib c price days_to_maturity option_type sd =
     (let exp_t = py_int (days_to_maturity * 24 * 60 * 60);
          tau = real_of_int exp_t / 60 / 60 / 24 / 365.25;
          price_chain = get_price_chain c option_type sd
      in bind_err (get_strike_iv_interpolator lib c price_chain exp_t option_type) (\<lambda>iv_interp.
           let price_interp = (\<lambda>k. bind_err (iv_interp k)
                                 (\<lambda>iv. black_scholes lib option_type (oc_spot c) k tau (oc_rf c) iv))
           in bind_err (price_interp (oc_spot c)) (\<lambda>price_guess.
              bind_err (fsolve lib (\<lambda>k. bind_err (price_interp k) (\<lambda>v. Inr (fl_sub v (Fin price))))
                          price_guess) (\<lambda>(strike, converged).
              bind_err (iv_interp strike) (\<lambda>iv.
                Inr (Fin price, strike, iv))))))"

text \<open>
  The closures of the two searches for a given interpolator: \<^verbatim>\<open>delta_interp\<close> and
  \<^verbatim>\<open>price_interp\<close>, and the functions handed to the root-finder,
  \<^verbatim>\<open>lambda k: delta_interp(k) - delta\<close> and \<^verbatim>\<open>lambda k: price_interp(k) - price\<close>.
\<close>

definition delta_interp ::
  "numerics \<Rightarrow> OptionChain \<Rightarrow> (fl \<Rightarrow> error + fl) \<Rightarrow> option_type \<Rightarrow> real \<Rightarrow> fl \<Rightarrow> error + fl" where
  "delta_interp lib c iv_interp option_type tau =
     (\<lambda>k. bind_err (iv_interp k) (\<lambda>iv. delta_bsm lib option_type (oc_spot c) k tau (oc_rf c) iv))"

definition price_interp ::
  "numerics \<Rightarrow> OptionChain \<Rightarrow> (fl \<Rightarrow> error + fl) \<Rightarrow> option_type \<Rightarrow> real \<Rightarrow> fl \<Rightarrow> error + fl" where
  "price_interp lib c iv_interp option_type tau =
     (\<lambda>k. bind_err (iv_interp k) (\<lambda>iv. black_scholes lib option_type (oc_spot c) k tau (oc_rf c) iv))"

definition delta_objective ::
  "numerics \<Rightarrow> OptionChain \<Rightarrow> (fl \<Rightarrow> error + fl) \<Rightarrow> option_type \<Rightarrow> real \<Rightarrow> real \<Rightarrow> fl \<Rightarrow> error + fl" where
  "delta_objective lib c iv_interp option_type tau delta =
     (\<lambda>k. bind_err (delta_interp lib c iv_interp option_type tau k) (\<lambda>d. Inr (fl_sub d (Fin delta))))"

definition price_objective ::
  "numerics \<Rightarrow> OptionChain \<Rightarrow> (fl \<Rightarrow> error + fl) \<Rightarrow> option_type \<Rightarrow> real \<Rightarrow> real \<Rightarrow> fl \<Rightarrow> error + fl" where
  "price_objective lib c iv_interp option_type tau price =
     (\<lambda>k. bind_err (price_interp lib c iv_interp option_type tau k) (\<lambda>v. Inr (fl_sub v (Fin price))))"

section \<open>position.py\<close>

record OptionPosition =
  pos_type :: option_type
  pos_strike :: real
  pos_maturity :: int
  pos_size :: real
  pos_collateral_primary :: real
  pos_collateral_secondary :: real
  pos_iv_start :: real
  pos_price_start :: "real option"

definition is_long :: "OptionPosition \<Rightarrow> bool" where
  "is_long p = (pos_size p > 0)"

definition is_short :: "OptionPosition \<Rightarrow> bool" where
  "is_short p = (pos_size p < 0)"

definition is_call :: "OptionPosition \<Rightarrow> bool" where
  "is_call p = (pos_type p = Call)"

definition moneyness :: "OptionPosition \<Rightarrow> real \<Rightarrow> real" where
  "moneyness p spot = (if is_call p then spot - pos_strike p else pos_strike p - spot)"

definition collateral_value :: "OptionPosition \<Rightarrow> real \<Rightarrow> real" where
  "collateral_value p spot = pos_collateral_primary p + pos_collateral_secondary p * spot"

definition delivery :: "OptionPosition \<Rightarrow> real \<Rightarrow> real" where
  "delivery p spot = max 0 (moneyness p spot) * pos_size p"

definition is_liquidated :: "OptionPosition \<Rightarrow> real \<Rightarrow> bool" where
  "is_liquidated p spot = (collateral_value p spot < - delivery p spot \<and> is_short p)"

definition is_expired :: "OptionPosition \<Rightarrow> int \<Rightarrow> bool" where
  "is_expired p time = (time \<ge> pos_maturity p)"

section \<open>status.py and action.py\<close>

record SimulationStatus =
  primary :: real
  secondary :: real
  positions :: "OptionPosition list"

datatype action_type = Buy | Sell | Expiration | Liquidation

text \<open>
  \<^verbatim>\<open>SimulationAction.description\<close> is a formatted message that nothing reads back; the
  record leaves it out.
\<close>

record SimulationAction =
  act_step :: nat
  act_timestamp :: int
  act_spot :: real
  act_type :: action_type
  act_position :: "OptionPosition option"
  act_liquidity_change :: "real option"

definition liquidity :: "SimulationStatus \<Rightarrow> real \<Rightarrow> real" where
  "liquidity status spot = primary status + secondary status * spot"

definition num_long_positions :: "SimulationStatus \<Rightarrow> nat" where
  "num_long_positions status = length (filter is_long (positions status))"

definition num_short_positions :: "SimulationStatus \<Rightarrow> nat" where
  "num_short_positions status = length (filter is_short (positions status))"

definition size_long_positions :: "SimulationStatus \<Rightarrow> real" where
  "size_long_positions status = \<bar>sum_list (map pos_size (filter is_long (positions status)))\<bar>"

definition size_short_positions :: "SimulationStatus \<Rightarrow> real" where
  "size_short_positions status = \<bar>sum_list (map pos_size (filter is_short (positions status)))\<bar>"

definition collateral_primary :: "SimulationStatus \<Rightarrow> real" where
  "collateral_primary status = sum_list (map pos_collateral_primary (positions status))"

definition collateral_secondary :: "SimulationStatus \<Rightarrow> real" where
  "collateral_secondary status = sum_list (map pos_collateral_secondary (positions status))"

section \<open>simulator.py: liquidation and expiration checks\<close>

text \<open>
  \<^verbatim>\<open>list.remove(x)\<close> deletes the first element equal to \<open>x\<close> and raises \<^verbatim>\<open>ValueError\<close> when
  there is none. Positions are dataclasses, so equality is equality of all fields.
\<close>

definition list_remove :: "'a \<Rightarrow> 'a list \<Rightarrow> error + 'a list" where
  "list_remove x xs = (if x \<in> set xs then Inr (remove1 x xs) else Inl ValueError)"

definition liquidation_action :: "nat \<Rightarrow> int \<Rightarrow> real \<Rightarrow> OptionPosition \<Rightarrow> SimulationAction" where
  "liquidation_action step time spot position =
     \<lparr>act_step = step, act_timestamp = time, act_spot = spot, act_type = Liquidation,
      act_position = Some position, act_liquidity_change = Some 0\<rparr>"

text \<open>The body of the \<^verbatim>\<open>for position in liquidated_positions\<close> loop.\<close>

fun liquidate_each ::
  "nat \<Rightarrow> int \<Rightarrow> real \<Rightarrow> OptionPosition list \<Rightarrow> SimulationStatus \<Rightarrow> SimulationAction list
     \<Rightarrow> error + SimulationStatus \<times> SimulationAction list" where
  "liquidate_each step time spot [] status actions = Inr (status, actions)"
| "liquidate_each step time spot (position # rest) status actions =
     (case list_remove position (positions status) of
        Inl e \<Rightarrow> Inl e
      | Inr ps \<Rightarrow>
          liquidate_each step time spot rest (status\<lparr>positions := ps\<rparr>)
            (actions @ [liquidation_action step time spot position]))"

definition check_liquidations ::
  "nat \<Rightarrow> int \<Rightarrow> real \<Rightarrow> SimulationStatus \<Rightarrow> error + SimulationStatus \<times> SimulationAction list" where
  "check_liquidations step time spot status =
     (let liquidated_positions = filter (\<lambda>p. is_liquidated p spot) (positions status)
      in liquidate_each step time spot liquidated_positions status [])"

definition expiration_action :: "nat \<Rightarrow> int \<Rightarrow> real \<Rightarrow> OptionPosition \<Rightarrow> real \<Rightarrow> SimulationAction" where
  "expiration_action step time spot position liquidity_change =
     \<lparr>act_step = step, act_timestamp = time, act_spot = spot, act_type = Expiration,
      act_position = Some position, act_liquidity_change = Some liquidity_change\<rparr>"

text \<open>The body of the \<^verbatim>\<open>for position in expired_positions\<close> loop.\<close>

fun expire_each ::
  "nat \<Rightarrow> int \<Rightarrow> real \<Rightarrow> OptionPosition list \<Rightarrow> SimulationStatus \<Rightarrow> SimulationAction list
     \<Rightarrow> error + SimulationStatus \<times> SimulationAction list" where
  "expire_each step time spot [] status actions = Inr (status, actions)"
| "expire_each step time spot (position # rest) status actions =
     (let collateral = collateral_value position spot;
          delivery_amount = delivery position spot;
          liquidity_change = delivery_amount + collateral;
          status1 = status\<lparr>primary := primary status + liquidity_change\<rparr>
      in case list_remove position (positions status1) of
           Inl e \<Rightarrow> Inl e
         | Inr ps \<Rightarrow>
             expire_each step time spot rest (status1\<lparr>positions := ps\<rparr>)
               (actions @ [expiration_action step time spot position liquidity_change]))"

definition check_expirations ::
  "nat \<Rightarrow> int \<Rightarrow> real \<Rightarrow> SimulationStatus \<Rightarrow> error + SimulationStatus \<times> SimulationAction list" where
  "check_expirations step time spot status =
     (let expired_positions = filter (\<lambda>p. is_expired p time) (positions status)
      in expire_each step time spot expired_positions status [])"

section \<open>simulator.py: the time loop\<close>

text \<open>
  A strategy is an external collaborator. \<^verbatim>\<open>execute(step, time, spot, status, chain,
  action_log)\<close> returns the new status and the actions it generated, or raises. The
  strategies of the repository keep no state between calls and only read the log.
\<close>

type_synonym strategy =
  "nat \<Rightarrow> int \<Rightarrow> real \<Rightarrow> SimulationStatus \<Rightarrow> OptionChain option \<Rightarrow> SimulationAction list
     \<Rightarrow> error + SimulationStatus \<times> SimulationAction list"

record OptionSimulator =
  sim_chain_timeline :: OptionChainTimeline
  sim_strategies :: "strategy list"
  sim_timing_signal :: "(int \<times> nat) list"

text \<open>
  The timing signal is a series of strategy indices by timestamp, with one entry per
  timestamp; the constructor checks the indices and sorts the series by timestamp.
\<close>

definition OptionSimulator_init ::
  "OptionChainTimeline \<Rightarrow> strategy list \<Rightarrow> (int \<times> nat) list option \<Rightarrow> error + OptionSimulator" where
  "OptionSimulator_init chain_timeline strategies timing_signal =
     (if \<not> length strategies > 0 then Inl AssertionError
      else case timing_signal of
        None \<Rightarrow>
          Inr \<lparr>sim_chain_timeline = chain_timeline, sim_strategies = strategies,
               sim_timing_signal = []\<rparr>
      | Some ts \<Rightarrow>
          if ts = [] then Inl ValueError
          else if \<not> Max (set (map snd ts)) < length strategies then Inl AssertionError
          else Inr \<lparr>sim_chain_timeline = chain_timeline, sim_strategies = strategies,
                    sim_timing_signal = sort_key fst ts\<rparr>)"

text \<open>
  \<^verbatim>\<open>self.timing_signal.get(timestamp)\<close>, and the previous signal (or 0) when there is none.
\<close>

definition signal_at :: "(int \<times> nat) list \<Rightarrow> int \<Rightarrow> nat" where
  "signal_at timing_signal timestamp =
     (case map_of timing_signal timestamp of
        Some s \<Rightarrow> s
      | None \<Rightarrow>
          (let previous = filter (\<lambda>(t, s). t < timestamp) timing_signal
           in if length previous > 0 then snd (last previous) else 0))"

text \<open>\<^verbatim>\<open>int((end - start) / interval)\<close>: the quotient truncated toward zero.\<close>

definition num_steps :: "int \<Rightarrow> int \<Rightarrow> int \<Rightarrow> error + nat" where
  "num_steps start end_time interval =
     (if interval = 0 then Inl ZeroDivisionError
      else Inr (if (end_time - start < 0) = (interval < 0)
                then nat (\<bar>end_time - start\<bar> div \<bar>interval\<bar>) else 0))"

text \<open>
  The body of \<^verbatim>\<open>for i in range(num_steps)\<close> in \<^verbatim>\<open>_iterate_timeline\<close>, with the loop variables
  \<open>last_spot\<close> and \<open>last_chain\<close>; the generator's yields are collected in a list.
\<close>

fun iterate_steps ::
  "OptionSimulator \<Rightarrow> int \<Rightarrow> int \<Rightarrow> nat list \<Rightarrow> real \<Rightarrow> OptionChain option
     \<Rightarrow> (nat \<times> int \<times> real \<times> nat \<times> OptionChain option) list" where
  "iterate_steps sim start interval [] last_spot last_chain = []"
| "iterate_steps sim start interval (i # rest) last_spot last_chain =
     (let timestamp = start + int i * interval;
          (spot0, chain0) = get_timestamp_chain (sim_chain_timeline sim) timestamp 0;
          (spot, chain) = (case spot0 of None \<Rightarrow> (last_spot, last_chain)
                                       | Some s \<Rightarrow> (s, Some chain0));
          signal = signal_at (sim_timing_signal sim) timestamp
      in (i, timestamp, spot, signal, chain)
           # iterate_steps sim start interval rest spot chain)"

definition iterate_timeline ::
  "OptionSimulator \<Rightarrow> int \<Rightarrow> int \<Rightarrow> int
     \<Rightarrow> error + (nat \<times> int \<times> real \<times> nat \<times> OptionChain option) list" where
  "iterate_timeline sim start end_time interval =
     (case num_steps start end_time interval of
        Inl e \<Rightarrow> Inl e
      | Inr n \<Rightarrow> Inr (iterate_steps sim start interval [0..<n] 1 None))"

text \<open>The spot and the chain of a yielded tuple \<^verbatim>\<open>(i, timestamp, spot, signal, chain)\<close>.\<close>

definition yield_spot :: "nat \<times> int \<times> real \<times> nat \<times> OptionChain option \<Rightarrow> real" where
  "yield_spot y = fst (snd (snd y))"

definition yield_chain :: "nat \<times> int \<times> real \<times> nat \<times> OptionChain option \<Rightarrow> OptionChain option" where
  "yield_chain y = snd (snd (snd (snd y)))"

record TimelineRow =
  row_timestamp :: int
  row_spot :: real
  row_primary :: real
  row_secondary :: real
  row_liquidity :: real
  row_num_long_positions :: nat
  row_num_short_positions :: nat
  row_size_long_positions :: real
  row_size_short_positions :: real
  row_collateral_primary :: real
  row_collateral_secondary :: real
  row_total_collaterals :: real
  row_positions_delta :: real
  row_total_delta :: real
  row_positions_value :: real
  row_total_value :: real

text \<open>
  \<^verbatim>\<open>OptionPosition.valuation\<close> and \<^verbatim>\<open>OptionPosition.delta\<close> price through the external
  Black-Scholes library and pandas' calendar units; they enter the row computation as the
  parameters \<open>valuation\<close> and \<open>delta\<close>, which may raise.
\<close>

type_synonym pricing =
  "OptionPosition \<Rightarrow> real \<Rightarrow> int \<Rightarrow> OptionChain option \<Rightarrow> error + real"

fun sum_results :: "('a \<Rightarrow> error + real) \<Rightarrow> 'a list \<Rightarrow> error + real" where
  "sum_results f [] = Inr 0"
| "sum_results f (x # xs) =
     (case f x of Inl e \<Rightarrow> Inl e
      | Inr v \<Rightarrow> (case sum_results f xs of Inl e \<Rightarrow> Inl e | Inr w \<Rightarrow> Inr (v + w)))"

definition get_timeline_row ::
  "pricing \<Rightarrow> pricing \<Rightarrow> int \<Rightarrow> real \<Rightarrow> SimulationStatus \<Rightarrow> OptionChain option
     \<Rightarrow> error + TimelineRow" where
  "get_timeline_row valuation delta time spot status chain =
     (let liq = liquidity status spot;
          coll_primary = collateral_primary status;
          coll_secondary = collateral_secondary status;
          total_collaterals = coll_primary + coll_secondary * spot
      in case sum_results (\<lambda>p. valuation p spot time chain) (positions status) of
           Inl e \<Rightarrow> Inl e
         | Inr positions_value \<Rightarrow>
            (case sum_results (\<lambda>p. delta p spot time chain) (positions status) of
               Inl e \<Rightarrow> Inl e
             | Inr positions_delta \<Rightarrow>
                 Inr \<lparr>row_timestamp = time, row_spot = spot,
                      row_primary = primary status, row_secondary = secondary status,
                      row_liquidity = liq,
                      row_num_long_positions = num_long_positions status,
                      row_num_short_positions = num_short_positions status,
                      row_size_long_positions = size_long_positions status,
                      row_size_short_positions = size_short_positions status,
                      row_collateral_primary = coll_primary,
                      row_collateral_secondary = coll_secondary,
                      row_total_collaterals = total_collaterals,
                      row_positions_delta = positions_delta,
                      row_total_delta = secondary status + positions_delta + coll_secondary,
                      row_positions_value = positions_value,
                      row_total_value = liq + positions_value + total_collaterals\<rparr>))"

text \<open>
  One pass of the \<^verbatim>\<open>for\<close> loop of \<^verbatim>\<open>simulate\<close>: liquidations, expirations, the strategy
  chosen by the signal, the timeline row, then the three action lists appended to the log.
\<close>

definition simulate_step ::
  "OptionSimulator \<Rightarrow> pricing \<Rightarrow> pricing \<Rightarrow> nat \<times> int \<times> real \<times> nat \<times> OptionChain option
     \<Rightarrow> SimulationStatus \<times> TimelineRow list \<times> SimulationAction list
     \<Rightarrow> error + SimulationStatus \<times> TimelineRow list \<times> SimulationAction list" where
  "simulate_step sim valuation delta y state =
     (case (y, state) of ((step, time, spot, signal, chain), (status, timeline, action_log)) \<Rightarrow>
        (case check_liquidations step time spot status of
           Inl e \<Rightarrow> Inl e
         | Inr (status1, liq_actions) \<Rightarrow>
        (case check_expirations step time spot status1 of
           Inl e \<Rightarrow> Inl e
         | Inr (status2, exp_actions) \<Rightarrow>
        (if \<not> signal < length (sim_strategies sim) then Inl IndexError
         else case (sim_strategies sim ! signal) step time spot status2 chain action_log of
           Inl e \<Rightarrow> Inl e
         | Inr (status3, strategy_actions) \<Rightarrow>
        (case get_timeline_row valuation delta time spot status3 chain of
           Inl e \<Rightarrow> Inl e
         | Inr row \<Rightarrow>
             Inr (status3, timeline @ [row],
                  action_log @ liq_actions @ exp_actions @ strategy_actions))))))"

fun simulate_loop ::
  "OptionSimulator \<Rightarrow> pricing \<Rightarrow> pricing \<Rightarrow> (nat \<times> int \<times> real \<times> nat \<times> OptionChain option) list
     \<Rightarrow> SimulationStatus \<times> TimelineRow list \<times> SimulationAction list
     \<Rightarrow> error + SimulationStatus \<times> TimelineRow list \<times> SimulationAction list" where
  "simulate_loop sim valuation delta [] state = Inr state"
| "simulate_loop sim valuation delta (y # ys) state =
     (case simulate_step sim valuation delta y state of
        Inl e \<Rightarrow> Inl e
      | Inr state' \<Rightarrow> simulate_loop sim valuation delta ys state')"

text \<open>
  \<^verbatim>\<open>simulate\<close> up to the construction of the result object: the timeline and the action
  log that are handed to \<^verbatim>\<open>SimulationResult\<close> (whose statistics are not part of the model).
\<close>

definition simulate ::
  "OptionSimulator \<Rightarrow> pricing \<Rightarrow> pricing \<Rightarrow> int \<Rightarrow> int \<Rightarrow> real \<Rightarrow> int
     \<Rightarrow> error + TimelineRow list \<times> SimulationAction list" where
  "simulate sim valuation delta start end_time starting_capital time_step =
     (let status = \<lparr>primary = starting_capital, secondary = 0, positions = []\<rparr>
      in case iterate_timeline sim start end_time time_step of
           Inl e \<Rightarrow> Inl e
         | Inr ys \<Rightarrow>
            (case simulate_loop sim valuation delta ys (status, [], []) of
               Inl e \<Rightarrow> Inl e
             | Inr (status', timeline, action_log) \<Rightarrow> Inr (timeline, action_log)))"

section \<open>Example data\<close>

text \<open>
  A short put with strike 100, size -1 and no collateral, and a long call with strike 40
  and size 2 that matures at time 5.
\<close>

definition example_short_put :: OptionPosition where
  "example_short_put =
     \<lparr>pos_type = Put, pos_strike = 100, pos_maturity = 10, pos_size = - 1,
      pos_collateral_primary = 0, pos_collateral_secondary = 0, pos_iv_start = 1,
      pos_price_start = None\<rparr>"

definition example_long_call :: OptionPosition where
  "example_long_call =
     \<lparr>pos_type = Call, pos_strike = 40, pos_maturity = 5, pos_size = 2,
      pos_collateral_primary = 0, pos_collateral_secondary = 0, pos_iv_start = 1,
      pos_price_start = None\<rparr>"

definition example_status :: SimulationStatus where
  "example_status = \<lparr>primary = 1000, secondary = 0, positions = [example_short_put, example_long_call]\<rparr>"

text \<open>A strategy that buys one fixed position at every call, and one that does nothing.\<close>

definition buying_strategy :: strategy where
  "buying_strategy step time spot status chain action_log =
     Inr (status\<lparr>positions := positions status @ [example_long_call]\<rparr>,
          [\<lparr>act_step = step, act_timestamp = time, act_spot = spot, act_type = Buy,
            act_position = Some example_long_call, act_liquidity_change = Some 0\<rparr>])"

definition idle_strategy :: strategy where
  "idle_strategy step time spot status chain action_log = Inr (status, [])"

definition free_pricing :: pricing where
  "free_pricing p spot time chain = Inr 0"

text \<open>Quotes at the timestamps 0 and 2 only; the underlying is at 100, then at 120.\<close>

definition example_quote :: "int \<Rightarrow> real \<Rightarrow> Quote" where
  "example_quote t s =
     \<lparr>q_timestamp = t, q_expiration = t + 604800, q_type = Call, q_strike = 100,
      q_bid_price = 1 / 10, q_mark_price = 1 / 10, q_ask_price = 1 / 10,
      q_underlying_price = s, q_iv_ratio = 1, q_spot_ratio = 1\<rparr>"

definition example_timeline :: OptionChainTimeline where
  "example_timeline =
     \<lparr>tl_chain = [example_quote 0 100, example_quote 2 120], tl_default_iv = 1,
      tl_iv_margin = 5 / 4\<rparr>"

definition example_sim :: "strategy \<Rightarrow> OptionSimulator" where
  "example_sim strat =
     \<lparr>sim_chain_timeline = example_timeline, sim_strategies = [strat], sim_timing_signal = []\<rparr>"

text \<open>
  Price tables with two quotes at the strikes 90 and 110 for each of the maturities 10 and
  20 (and 30); the quotes of maturity 10 have price 1, the others price 10.
\<close>

definition example_row :: "int \<Rightarrow> real \<Rightarrow> PriceRow" where
  "example_row e k = \<lparr>pr_p = Fin (if e = 10 then 1 else 10), pr_K = k, pr_exp = e, pr_iv_ratio = 1\<rparr>"

definition two_maturity_table :: "PriceRow list" where
  "two_maturity_table = [example_row 10 90, example_row 10 110, example_row 20 90, example_row 20 110]"

definition three_maturity_table :: "PriceRow list" where
  "three_maturity_table = two_maturity_table @ [example_row 30 90, example_row 30 110]"

text \<open>
  Stand-ins for the numerical libraries: constant prices and deltas, an inversion that
  fails on a price of 1 and gives 1/2 otherwise, and a root-finder that never converges
  and hands back its starting point.
\<close>

definition stalling_lib :: numerics where
  "stalling_lib =
     \<lparr>black_scholes = (\<lambda>flag S K t r sigma. Inr (Fin 5)),
      delta_bsm = (\<lambda>flag S K t r sigma. Inr (Fin (1 / 4))),
      imp_vol_bsm = (\<lambda>price S K t r flag. if price = Fin 1 then Inl LibraryError else Inr (1 / 2)),
      fsolve = (\<lambda>func x0. Inr (x0, False))\<rparr>"

definition example_chain :: OptionChain where
  "example_chain = OptionChain_init [example_quote 0 100] 1 (5 / 4) 0"

text \<open>
  The interpolator of \<open>example_chain\<close>: its single quote gives no maturity with two quotes,
  so every strike gets the default volatility 1.
\<close>

definition example_interp :: "fl \<Rightarrow> error + fl" where
  "example_interp = (\<lambda>strike. Inr (Fin 1))"

section \<open>Properties of the liquidation and expiration checks\<close>

lemma list_remove_first:
  "x \<notin> set pre \<Longrightarrow> list_remove x (pre @ x # xs) = Inr (pre @ xs)"
  by (simp add: list_remove_def remove1_append)

lemma liquidate_each_filter:
  "\<forall>p\<in>set pre. \<not> P p \<Longrightarrow> positions status = pre @ xs \<Longrightarrow>
   liquidate_each step time spot (filter P xs) status acts =
     Inr (status\<lparr>positions := pre @ filter (\<lambda>p. \<not> P p) xs\<rparr>,
          acts @ map (liquidation_action step time spot) (filter P xs))"
proof (induction xs arbitrary: pre status acts)
  case Nil
  then show ?case by simp
next
  case (Cons x xs)
  show ?case
  proof (cases "P x")
    case True
    with Cons.prems have notin: "x \<notin> set pre" by auto
    have rm: "list_remove x (positions status) = Inr (pre @ xs)"
      using Cons.prems(2) notin by (simp add: list_remove_first)
    have "liquidate_each step time spot (filter P xs) (status\<lparr>positions := pre @ xs\<rparr>)
            (acts @ [liquidation_action step time spot x]) =
          Inr (status\<lparr>positions := pre @ xs\<rparr>\<lparr>positions := pre @ filter (\<lambda>p. \<not> P p) xs\<rparr>,
               (acts @ [liquidation_action step time spot x]) @
                 map (liquidation_action step time spot) (filter P xs))"
      by (rule Cons.IH) (use Cons.prems in simp_all)
    with True rm show ?thesis by simp
  next
    case False
    have "liquidate_each step time spot (filter P xs) status acts =
          Inr (status\<lparr>positions := (pre @ [x]) @ filter (\<lambda>p. \<not> P p) xs\<rparr>,
               acts @ map (liquidation_action step time spot) (filter P xs))"
      by (rule Cons.IH) (use Cons.prems False in auto)
    with False show ?thesis by simp
  qed
qed

lemma check_liquidations_eq:
  "check_liquidations step time spot status =
     Inr (status\<lparr>positions := filter (\<lambda>p. \<not> is_liquidated p spot) (positions status)\<rparr>,
          map (liquidation_action step time spot)
            (filter (\<lambda>p. is_liquidated p spot) (positions status)))"
  unfolding check_liquidations_def Let_def
  using liquidate_each_filter [of "[]" "\<lambda>p. is_liquidated p spot" status "positions status" step time spot "[]"]
  by simp

lemma expire_each_filter:
  "\<forall>p\<in>set pre. \<not> P p \<Longrightarrow> positions status = pre @ xs \<Longrightarrow>
   expire_each step time spot (filter P xs) status acts =
     Inr (status\<lparr>primary := primary status
                     + sum_list (map (\<lambda>p. delivery p spot + collateral_value p spot) (filter P xs)),
                 positions := pre @ filter (\<lambda>p. \<not> P p) xs\<rparr>,
          acts @ map (\<lambda>p. expiration_action step time spot p
                             (delivery p spot + collateral_value p spot)) (filter P xs))"
proof (induction xs arbitrary: pre status acts)
  case Nil
  then show ?case by simp
next
  case (Cons x xs)
  show ?case
  proof (cases "P x")
    case True
    with Cons.prems have notin: "x \<notin> set pre" by auto
    define c where "c = delivery x spot + collateral_value x spot"
    define status1 where "status1 = status\<lparr>primary := primary status + c\<rparr>"
    have rm: "list_remove x (positions status1) = Inr (pre @ xs)"
      using Cons.prems(2) notin by (simp add: list_remove_first status1_def)
    have "expire_each step time spot (filter P xs) (status1\<lparr>positions := pre @ xs\<rparr>)
            (acts @ [expiration_action step time spot x c]) =
          Inr (status1\<lparr>positions := pre @ xs\<rparr>
                 \<lparr>primary := primary (status1\<lparr>positions := pre @ xs\<rparr>)
                     + sum_list (map (\<lambda>p. delivery p spot + collateral_value p spot) (filter P xs)),
                  positions := pre @ filter (\<lambda>p. \<not> P p) xs\<rparr>,
               (acts @ [expiration_action step time spot x c]) @
                 map (\<lambda>p. expiration_action step time spot p
                             (delivery p spot + collateral_value p spot)) (filter P xs))"
      by (rule Cons.IH) (use Cons.prems in simp_all)
    with True rm show ?thesis
      by (simp add: Let_def status1_def c_def add.commute add.assoc)
  next
    case False
    have "expire_each step time spot (filter P xs) status acts =
          Inr (status\<lparr>primary := primary status
                     + sum_list (map (\<lambda>p. delivery p spot + collateral_value p spot) (filter P xs)),
                 positions := (pre @ [x]) @ filter (\<lambda>p. \<not> P p) xs\<rparr>,
          acts @ map (\<lambda>p. expiration_action step time spot p
                             (delivery p spot + collateral_value p spot)) (filter P xs))"
      by (rule Cons.IH) (use Cons.prems False in auto)
    with False show ?thesis by simp
  qed
qed

lemma check_expirations_eq:
  "check_expirations step time spot status =
     Inr (status\<lparr>primary := primary status
                     + sum_list (map (\<lambda>p. delivery p spot + collateral_value p spot)
                         (filter (\<lambda>p. is_expired p time) (positions status))),
                 positions := filter (\<lambda>p. \<not> is_expired p time) (positions status)\<rparr>,
          map (\<lambda>p. expiration_action step time spot p (delivery p spot + collateral_value p spot))
            (filter (\<lambda>p. is_expired p time) (positions status)))"
  unfolding check_expirations_def Let_def
  using expire_each_filter [of "[]" "\<lambda>p. is_expired p time" status "positions status" step time spot "[]"]
  by simp

section \<open>Properties of the time loop\<close>

lemma length_iterate_steps:
  "length (iterate_steps sim start interval idxs ls lc) = length idxs"
  by (induction idxs arbitrary: ls lc) (auto simp: Let_def split: prod.splits option.splits)

lemma iterate_steps_Cons:
  "iterate_steps sim start interval (i # rest) ls lc =
     (let g = get_timestamp_chain (sim_chain_timeline sim) (start + int i * interval) 0;
          spot1 = (case fst g of None \<Rightarrow> ls | Some s \<Rightarrow> s);
          chain1 = (case fst g of None \<Rightarrow> lc | Some s \<Rightarrow> Some (snd g))
      in (i, start + int i * interval, spot1,
          signal_at (sim_timing_signal sim) (start + int i * interval), chain1)
           # iterate_steps sim start interval rest spot1 chain1)"
  by (cases "get_timestamp_chain (sim_chain_timeline sim) (start + int i * interval) 0")
     (simp add: Let_def split: option.splits)

lemma iterate_steps_nth_shape:
  "k < length idxs \<Longrightarrow>
   fst (iterate_steps sim start interval idxs ls lc ! k) = idxs ! k
   \<and> fst (snd (iterate_steps sim start interval idxs ls lc ! k)) = start + int (idxs ! k) * interval
   \<and> fst (snd (snd (snd (iterate_steps sim start interval idxs ls lc ! k)))) =
       signal_at (sim_timing_signal sim) (start + int (idxs ! k) * interval)"
proof (induction idxs arbitrary: k ls lc)
  case Nil
  then show ?case by simp
next
  case (Cons i rest)
  show ?case
  proof (cases k)
    case 0
    then show ?thesis by (simp add: iterate_steps_Cons Let_def del: iterate_steps.simps)
  next
    case (Suc k')
    then have "k' < length rest" using Cons.prems by simp
    from Cons.IH [OF this] show ?thesis
      unfolding Suc by (simp add: iterate_steps_Cons Let_def del: iterate_steps.simps)
  qed
qed

lemma iterate_steps_nth_state:
  "k < length idxs \<Longrightarrow>
   (yield_spot (iterate_steps sim start interval idxs ls lc ! k),
    yield_chain (iterate_steps sim start interval idxs ls lc ! k)) =
   (let g = get_timestamp_chain (sim_chain_timeline sim) (start + int (idxs ! k) * interval) 0
    in case fst g of
         Some s \<Rightarrow> (s, Some (snd g))
       | None \<Rightarrow>
           if k = 0 then (ls, lc)
           else (yield_spot (iterate_steps sim start interval idxs ls lc ! (k - 1)),
                 yield_chain (iterate_steps sim start interval idxs ls lc ! (k - 1))))"
proof (induction idxs arbitrary: k ls lc)
  case Nil
  then show ?case by simp
next
  case (Cons i rest)
  show ?case
  proof (cases k)
    case 0
    then show ?thesis
      by (simp add: iterate_steps_Cons Let_def yield_spot_def yield_chain_def del: iterate_steps.simps split: option.splits)
  next
    case (Suc k')
    then have k': "k' < length rest" using Cons.prems by simp
    show ?thesis
    proof (cases k')
      case 0
      with Cons.IH [OF k'] show ?thesis
        unfolding Suc
        by (simp add: iterate_steps_Cons Let_def yield_spot_def yield_chain_def del: iterate_steps.simps split: option.splits)
    next
      case (Suc k'')
      with Cons.IH [OF k'] show ?thesis
        unfolding \<open>k = Suc k'\<close>
        by (simp add: iterate_steps_Cons Let_def del: iterate_steps.simps split: option.splits)
    qed
  qed
qed

lemma carried_from_data:
  assumes "j + d < n"
    and "fst (get_timestamp_chain (sim_chain_timeline sim) (start + int j * interval) 0) = Some s"
    and "\<forall>k. j < k \<and> k \<le> j + d \<longrightarrow>
           fst (get_timestamp_chain (sim_chain_timeline sim) (start + int k * interval) 0) = None"
  shows "yield_spot (iterate_steps sim start interval [0..<n] ls lc ! (j + d)) = s
       \<and> yield_chain (iterate_steps sim start interval [0..<n] ls lc ! (j + d)) =
           Some (snd (get_timestamp_chain (sim_chain_timeline sim) (start + int j * interval) 0))"
  using assms
proof (induction d)
  case 0
  then have "j < length [0..<n]" by simp
  from iterate_steps_nth_state [OF this, of sim start interval ls lc] 0 show ?case
    by (simp add: Let_def)
next
  case (Suc d)
  then have lt: "j + Suc d < length [0..<n]" by simp
  have none: "fst (get_timestamp_chain (sim_chain_timeline sim) (start + int (j + Suc d) * interval) 0) = None"
    using Suc.prems(3) [rule_format, of "j + Suc d"] by simp
  have IH: "yield_spot (iterate_steps sim start interval [0..<n] ls lc ! (j + d)) = s
       \<and> yield_chain (iterate_steps sim start interval [0..<n] ls lc ! (j + d)) =
           Some (snd (get_timestamp_chain (sim_chain_timeline sim) (start + int j * interval) 0))"
    using Suc by simp
  from iterate_steps_nth_state [OF lt, of sim start interval ls lc] none Suc.prems(1) IH
  show ?case by (simp add: Let_def)
qed

lemma initial_without_data:
  assumes "i < n"
    and "\<forall>k. k \<le> i \<longrightarrow>
           fst (get_timestamp_chain (sim_chain_timeline sim) (start + int k * interval) 0) = None"
  shows "yield_spot (iterate_steps sim start interval [0..<n] ls lc ! i) = ls
       \<and> yield_chain (iterate_steps sim start interval [0..<n] ls lc ! i) = lc"
  using assms
proof (induction i)
  case 0
  then have "0 < length [0..<n]" by simp
  from iterate_steps_nth_state [OF this, of sim start interval ls lc] 0 show ?case
    by (simp add: Let_def)
next
  case (Suc i)
  then have lt: "Suc i < length [0..<n]" by simp
  have none: "fst (get_timestamp_chain (sim_chain_timeline sim) (start + int (Suc i) * interval) 0) = None"
    using Suc.prems(2) by blast
  have IH: "yield_spot (iterate_steps sim start interval [0..<n] ls lc ! i) = ls
       \<and> yield_chain (iterate_steps sim start interval [0..<n] ls lc ! i) = lc"
    using Suc by simp
  from iterate_steps_nth_state [OF lt, of sim start interval ls lc] none Suc.prems(1) IH
  show ?case by (simp add: Let_def)
qed

lemma get_timeline_row_spot:
  "get_timeline_row valuation delta time spot status chain = Inr row \<Longrightarrow>
   row_spot row = spot \<and> row_timestamp row = time"
  by (auto simp: get_timeline_row_def Let_def split: sum.splits)

lemma simulate_step_decompose:
  assumes "simulate_step sim valuation delta (step, time, spot, signal, chain)
             (status, timeline, action_log) = Inr (status', timeline', action_log')"
  shows "\<exists>status1 liq_actions status2 exp_actions strategy_actions row.
           check_liquidations step time spot status = Inr (status1, liq_actions)
         \<and> check_expirations step time spot status1 = Inr (status2, exp_actions)
         \<and> signal < length (sim_strategies sim)
         \<and> (sim_strategies sim ! signal) step time spot status2 chain action_log
              = Inr (status', strategy_actions)
         \<and> get_timeline_row valuation delta time spot status' chain = Inr row
         \<and> timeline' = timeline @ [row]
         \<and> action_log' = action_log @ liq_actions @ exp_actions @ strategy_actions"
  using assms unfolding simulate_step_def
  by (auto split: sum.splits prod.splits if_splits)

lemma simulate_loop_rows:
  "simulate_loop sim valuation delta ys (status, timeline, action_log) = Inr (status', timeline', action_log')
   \<Longrightarrow> map row_spot timeline' = map row_spot timeline @ map yield_spot ys"
proof (induction ys arbitrary: status timeline action_log)
  case Nil
  then show ?case by simp
next
  case (Cons y ys)
  obtain step time spot signal chain where y: "y = (step, time, spot, signal, chain)"
    by (cases y) auto
  from Cons.prems obtain st1 tl1 log1 where
    step: "simulate_step sim valuation delta y (status, timeline, action_log) = Inr (st1, tl1, log1)"
    and rest: "simulate_loop sim valuation delta ys (st1, tl1, log1) = Inr (status', timeline', action_log')"
    by (auto split: sum.splits)
  from simulate_step_decompose [OF step [unfolded y]] obtain row where
    "get_timeline_row valuation delta time spot st1 chain = Inr row" "tl1 = timeline @ [row]"
    by blast
  then have "map row_spot tl1 = map row_spot timeline @ [spot]"
    using get_timeline_row_spot by fastforce
  with Cons.IH [OF rest] show ?case by (simp add: y yield_spot_def)
qed

section \<open>Claims about the simulation engine\<close>

text \<open>
  Claim C8. The liquidation check always returns; it removes exactly the positions of
  negative size whose collateral value is below the negative of their delivery, so a long
  position is never removed; it logs one \<open>Liquidation\<close> action per removed position, in
  order, each with liquidity change 0; the primary and secondary balances are unchanged.
\<close>

theorem check_liquidations_spec:
  "\<exists>status' actions.
     check_liquidations step time spot status = Inr (status', actions)
   \<and> positions status' =
       filter (\<lambda>p. \<not> (pos_size p < 0 \<and> collateral_value p spot < - delivery p spot)) (positions status)
   \<and> map act_position actions =
       map Some (filter (\<lambda>p. pos_size p < 0 \<and> collateral_value p spot < - delivery p spot) (positions status))
   \<and> (\<forall>a\<in>set actions. act_type a = Liquidation \<and> act_liquidity_change a = Some 0)
   \<and> (\<forall>p\<in>set (positions status). is_long p \<longrightarrow> p \<in> set (positions status'))
   \<and> primary status' = primary status \<and> secondary status' = secondary status"
proof -
  have liq: "is_liquidated p spot \<longleftrightarrow>
               pos_size p < 0 \<and> collateral_value p spot < - delivery p spot" for p
    by (auto simp: is_liquidated_def is_short_def)
  show ?thesis
    unfolding check_liquidations_eq
    by (auto simp: liq liquidation_action_def is_long_def comp_def)
qed

theorem check_liquidations_spec_witness:
  "\<exists>status' actions.
     check_liquidations 3 7 50 example_status = Inr (status', actions)
   \<and> positions status' = [example_long_call]
   \<and> map act_position actions = [Some example_short_put]
   \<and> (\<forall>a\<in>set actions. act_type a = Liquidation \<and> act_liquidity_change a = Some 0)
   \<and> (\<forall>p\<in>set (positions example_status). is_long p \<longrightarrow> p \<in> set (positions status'))
   \<and> primary status' = 1000 \<and> secondary status' = 0"
  using check_liquidations_spec [of 3 7 50 example_status]
  by (simp add: example_status_def example_short_put_def example_long_call_def
      collateral_value_def delivery_def moneyness_def is_call_def)

text \<open>
  Claim C6. The expiration check always returns; it removes exactly the expired
  positions and logs one \<open>Expiration\<close> action per removed position, whose liquidity change
  is \<open>delivery + collateral_value\<close> of that position at the step's spot; the primary
  balance grows by exactly the sum of these amounts.
\<close>

theorem check_expirations_spec:
  "\<exists>status' actions.
     check_expirations step time spot status = Inr (status', actions)
   \<and> positions status' = filter (\<lambda>p. \<not> is_expired p time) (positions status)
   \<and> map act_position actions = map Some (filter (\<lambda>p. is_expired p time) (positions status))
   \<and> map act_liquidity_change actions =
       map (\<lambda>p. Some (delivery p spot + collateral_value p spot))
         (filter (\<lambda>p. is_expired p time) (positions status))
   \<and> (\<forall>a\<in>set actions. act_type a = Expiration)
   \<and> primary status' = primary status
       + sum_list (map (\<lambda>p. delivery p spot + collateral_value p spot)
           (filter (\<lambda>p. is_expired p time) (positions status)))
   \<and> secondary status' = secondary status"
  unfolding check_expirations_eq
  by (auto simp: expiration_action_def comp_def)

theorem check_expirations_spec_witness:
  "\<exists>status' actions.
     check_expirations 3 7 50 example_status = Inr (status', actions)
   \<and> positions status' = [example_short_put]
   \<and> map act_position actions = [Some example_long_call]
   \<and> map act_liquidity_change actions = [Some 20]
   \<and> (\<forall>a\<in>set actions. act_type a = Expiration)
   \<and> primary status' = 1020
   \<and> secondary status' = 0"
  using check_expirations_spec [of 3 7 50 example_status]
  by (simp add: example_status_def example_short_put_def example_long_call_def
      collateral_value_def delivery_def moneyness_def is_call_def is_expired_def)

text \<open>
  Claim C7. When a simulation step succeeds, the action log after the step is the log
  before it followed by the actions of the liquidation check (all of kind \<open>Liquidation\<close>),
  then those of the expiration check (all of kind \<open>Expiration\<close>), then the actions the
  strategy returned, in this order.
\<close>

theorem step_actions_in_order:
  assumes "simulate_step sim valuation delta (step, time, spot, signal, chain)
             (status, timeline, action_log) = Inr (status', timeline', action_log')"
  shows "\<exists>status1 liq_actions status2 exp_actions strategy_actions.
           check_liquidations step time spot status = Inr (status1, liq_actions)
         \<and> check_expirations step time spot status1 = Inr (status2, exp_actions)
         \<and> (sim_strategies sim ! signal) step time spot status2 chain action_log
              = Inr (status', strategy_actions)
         \<and> action_log' = action_log @ liq_actions @ exp_actions @ strategy_actions
         \<and> (\<forall>a\<in>set liq_actions. act_type a = Liquidation)
         \<and> (\<forall>a\<in>set exp_actions. act_type a = Expiration)"
proof -
  from simulate_step_decompose [OF assms] obtain status1 liq_actions status2 exp_actions
      strategy_actions where
    l: "check_liquidations step time spot status = Inr (status1, liq_actions)" and
    e: "check_expirations step time spot status1 = Inr (status2, exp_actions)" and
    s: "(sim_strategies sim ! signal) step time spot status2 chain action_log
              = Inr (status', strategy_actions)" and
    a: "action_log' = action_log @ liq_actions @ exp_actions @ strategy_actions"
    by blast
  from l have "\<forall>a\<in>set liq_actions. act_type a = Liquidation"
    unfolding check_liquidations_eq by (auto simp: liquidation_action_def)
  moreover from e have "\<forall>a\<in>set exp_actions. act_type a = Expiration"
    unfolding check_expirations_eq by (auto simp: expiration_action_def)
  ultimately show ?thesis using l e s a by blast
qed

theorem step_actions_in_order_witness:
  "\<exists>status' timeline' action_log'.
     simulate_step (example_sim buying_strategy) free_pricing free_pricing (3, 7, 50, 0, None)
       (example_status, [], []) = Inr (status', timeline', action_log')
   \<and> map act_type action_log' = [Liquidation, Expiration, Buy]
   \<and> (\<exists>status1 liq_actions status2 exp_actions strategy_actions.
           check_liquidations 3 7 50 example_status = Inr (status1, liq_actions)
         \<and> check_expirations 3 7 50 status1 = Inr (status2, exp_actions)
         \<and> (sim_strategies (example_sim buying_strategy) ! 0) 3 7 50 status2 None []
              = Inr (status', strategy_actions)
         \<and> action_log' = [] @ liq_actions @ exp_actions @ strategy_actions
         \<and> (\<forall>a\<in>set liq_actions. act_type a = Liquidation)
         \<and> (\<forall>a\<in>set exp_actions. act_type a = Expiration))"
proof -
  have "\<exists>st tml lg.
     simulate_step (example_sim buying_strategy) free_pricing free_pricing (3, 7, 50, 0, None)
       (example_status, [], []) = Inr (st, tml, lg)
   \<and> map act_type lg = [Liquidation, Expiration, Buy]"
    by (simp add: simulate_step_def check_liquidations_eq check_expirations_eq example_sim_def
      buying_strategy_def free_pricing_def get_timeline_row_def Let_def
      example_status_def example_short_put_def example_long_call_def
      collateral_value_def delivery_def moneyness_def is_call_def is_expired_def
      is_liquidated_def is_short_def liquidation_action_def expiration_action_def)
  then obtain st tml lg where
    ev: "simulate_step (example_sim buying_strategy) free_pricing free_pricing (3, 7, 50, 0, None)
       (example_status, [], []) = Inr (st, tml, lg)"
    and ty: "map act_type lg = [Liquidation, Expiration, Buy]"
    by auto
  from step_actions_in_order [OF ev] ev ty show ?thesis
    by (intro exI [of _ st] exI [of _ tml] exI [of _ lg]) simp
qed

lemma iterate_timeline_Inr:
  assumes "iterate_timeline sim start end_time interval = Inr ys"
  shows "\<exists>n. ys = iterate_steps sim start interval [0..<n] 1 None \<and> length ys = n"
  using assms
  by (auto simp: iterate_timeline_def length_iterate_steps split: sum.splits)

lemma yield_eqI:
  "fst y = a \<Longrightarrow> fst (snd y) = b \<Longrightarrow> yield_spot y = c \<Longrightarrow> fst (snd (snd (snd y))) = d
   \<Longrightarrow> yield_chain y = e \<Longrightarrow> y = (a, b, c, d, e)"
  by (cases y) (auto simp: yield_spot_def yield_chain_def)

lemma simulate_rows:
  assumes "simulate sim valuation delta start end_time capital interval = Inr (timeline, action_log)"
    and "iterate_timeline sim start end_time interval = Inr ys"
  shows "map row_spot timeline = map yield_spot ys"
  using assms simulate_loop_rows [of sim valuation delta ys _ "[]" "[]"]
  by (auto simp: simulate_def Let_def split: sum.splits)

text \<open>
  Claim C9. If step \<open>j\<close> has quote data with spot \<open>s\<close> and chain \<open>c\<close>, and no step after
  \<open>j\<close> up to and including \<open>i\<close> has data, then step \<open>i\<close> is yielded with spot \<open>s\<close> and
  chain \<open>c\<close>, the same spot and chain as step \<open>i - 1\<close>, and the timeline row of step \<open>i\<close>
  records the spot \<open>s\<close>.
\<close>

theorem fill_forward:
  assumes it: "iterate_timeline sim start end_time interval = Inr ys"
    and i: "i < length ys" and j: "j < i"
    and data: "get_timestamp_chain (sim_chain_timeline sim) (start + int j * interval) 0 = (Some s, c)"
    and none: "\<forall>k. j < k \<and> k \<le> i \<longrightarrow>
           fst (get_timestamp_chain (sim_chain_timeline sim) (start + int k * interval) 0) = None"
  shows "ys ! i = (i, start + int i * interval, s,
                   signal_at (sim_timing_signal sim) (start + int i * interval), Some c)
       \<and> yield_spot (ys ! i) = yield_spot (ys ! (i - 1))
       \<and> yield_chain (ys ! i) = yield_chain (ys ! (i - 1))
       \<and> (simulate sim valuation delta start end_time capital interval = Inr (timeline, action_log)
            \<longrightarrow> row_spot (timeline ! i) = s)"
proof -
  from iterate_timeline_Inr [OF it] obtain n where
    ys: "ys = iterate_steps sim start interval [0..<n] 1 None" and n: "length ys = n" by blast
  have in': "i < n" using i n by simp
  have carried: "yield_spot (ys ! (j + d)) = s \<and> yield_chain (ys ! (j + d)) = Some c"
    if "j + d \<le> i" for d
    unfolding ys
    using carried_from_data [of j d n sim start interval s 1 None] that in' data none
    by simp
  from carried [of "i - j"] j have cur: "yield_spot (ys ! i) = s" "yield_chain (ys ! i) = Some c"
    by simp_all
  from carried [of "i - 1 - j"] j
  have prev: "yield_spot (ys ! (i - 1)) = s" "yield_chain (ys ! (i - 1)) = Some c"
    by simp_all
  have shape: "fst (ys ! i) = i" "fst (snd (ys ! i)) = start + int i * interval"
    "fst (snd (snd (snd (ys ! i)))) = signal_at (sim_timing_signal sim) (start + int i * interval)"
    unfolding ys using iterate_steps_nth_shape [of i "[0..<n]" sim start interval 1 None] in'
    by simp_all
  have tuple: "ys ! i = (i, start + int i * interval, s,
                   signal_at (sim_timing_signal sim) (start + int i * interval), Some c)"
    by (rule yield_eqI) (simp_all add: shape cur)
  have rows: "row_spot (timeline ! i) = s"
    if sim: "simulate sim valuation delta start end_time capital interval = Inr (timeline, action_log)"
  proof -
    have m: "map row_spot timeline = map yield_spot ys" by (rule simulate_rows [OF sim it])
    then have "length timeline = length ys" by (metis length_map)
    with i have "row_spot (timeline ! i) = map row_spot timeline ! i" by simp
    also have "\<dots> = yield_spot (ys ! i)" unfolding m using i by simp
    finally show ?thesis using cur by simp
  qed
  from tuple cur prev rows show ?thesis by simp
qed

text \<open>
  Claim C10. If no step up to and including \<open>i\<close> has quote data, step \<open>i\<close> is yielded
  with spot 1.0 and no chain (\<^verbatim>\<open>None\<close>).
\<close>

theorem initial_default:
  assumes it: "iterate_timeline sim start end_time interval = Inr ys"
    and i: "i < length ys"
    and none: "\<forall>k. k \<le> i \<longrightarrow>
           fst (get_timestamp_chain (sim_chain_timeline sim) (start + int k * interval) 0) = None"
  shows "ys ! i = (i, start + int i * interval, 1,
                   signal_at (sim_timing_signal sim) (start + int i * interval), None)"
proof -
  from iterate_timeline_Inr [OF it] obtain n where
    ys: "ys = iterate_steps sim start interval [0..<n] 1 None" and n: "length ys = n" by blast
  have in': "i < n" using i n by simp
  have st: "yield_spot (ys ! i) = 1" "yield_chain (ys ! i) = None"
    unfolding ys using initial_without_data [OF in' none, of 1 None] by simp_all
  have shape: "fst (ys ! i) = i" "fst (snd (ys ! i)) = start + int i * interval"
    "fst (snd (snd (snd (ys ! i)))) = signal_at (sim_timing_signal sim) (start + int i * interval)"
    unfolding ys using iterate_steps_nth_shape [of i "[0..<n]" sim start interval 1 None] in'
    by simp_all
  show ?thesis by (rule yield_eqI) (simp_all add: shape st)
qed

lemma example_data:
  "get_timestamp_chain example_timeline 0 0 =
     (Some 100, OptionChain_init [example_quote 0 100] 1 (5 / 4) 0)"
  "fst (get_timestamp_chain example_timeline 1 0) = None"
  "fst (get_timestamp_chain example_timeline 2 0) = Some 120"
  by (simp_all add: get_timestamp_chain_def example_timeline_def example_quote_def Let_def)

lemma upt3: "[0..<3] = [0, 1, 2]" by (simp add: upt_rec)
lemma upt2: "[0..<2] = [0, 1]" by (simp add: upt_rec)

lemma example_iterate:
  "iterate_timeline (example_sim idle_strategy) 0 3 1 =
     Inr [(0, 0, 100, 0, Some (OptionChain_init [example_quote 0 100] 1 (5 / 4) 0)),
          (1, 1, 100, 0, Some (OptionChain_init [example_quote 0 100] 1 (5 / 4) 0)),
          (2, 2, 120, 0, Some (OptionChain_init [example_quote 2 120] 1 (5 / 4) 0))]"
  by (simp add: iterate_timeline_def num_steps_def upt3 example_sim_def signal_at_def
      get_timestamp_chain_def example_timeline_def example_quote_def Let_def)

lemma example_simulate:
  "\<exists>timeline action_log.
      simulate (example_sim idle_strategy) free_pricing free_pricing 0 3 1000 1 = Inr (timeline, action_log)
    \<and> map row_spot timeline = [100, 100, 120]"
  unfolding simulate_def example_iterate
  by (simp add: simulate_step_def check_liquidations_eq check_expirations_eq example_sim_def
      idle_strategy_def free_pricing_def get_timeline_row_def Let_def)

theorem fill_forward_witness:
  "\<exists>ys timeline action_log.
      iterate_timeline (example_sim idle_strategy) 0 3 1 = Inr ys
    \<and> simulate (example_sim idle_strategy) free_pricing free_pricing 0 3 1000 1 = Inr (timeline, action_log)
    \<and> fst (get_timestamp_chain example_timeline 1 0) = None
    \<and> ys ! 1 = (1, 1, 100, 0, Some (OptionChain_init [example_quote 0 100] 1 (5 / 4) 0))
    \<and> yield_spot (ys ! 1) = yield_spot (ys ! 0)
    \<and> yield_chain (ys ! 1) = yield_chain (ys ! 0)
    \<and> row_spot (timeline ! 1) = 100"
proof -
  from example_simulate obtain timeline action_log where
    sim: "simulate (example_sim idle_strategy) free_pricing free_pricing 0 3 1000 1 = Inr (timeline, action_log)"
    by blast
  have sg: "signal_at (sim_timing_signal (example_sim idle_strategy)) t = 0" for t
    by (simp add: example_sim_def signal_at_def)
  have tlc: "sim_chain_timeline (example_sim idle_strategy) = example_timeline"
    by (simp add: example_sim_def)
  have none: "\<forall>k. 0 < k \<and> k \<le> (1::nat) \<longrightarrow>
      fst (get_timestamp_chain (sim_chain_timeline (example_sim idle_strategy)) (0 + int k * 1) 0) = None"
  proof (intro allI impI)
    fix k :: nat assume "0 < k \<and> k \<le> 1"
    then have "k = 1" by simp
    then show "fst (get_timestamp_chain (sim_chain_timeline (example_sim idle_strategy)) (0 + int k * 1) 0) = None"
      by (simp add: tlc example_data)
  qed
  from fill_forward [OF example_iterate _ _ _ none, of 100
      "OptionChain_init [example_quote 0 100] 1 (5 / 4) 0" free_pricing free_pricing 1000 timeline action_log]
    sim example_iterate
  show ?thesis by (simp add: tlc example_data sg)
qed

theorem initial_default_witness:
  "\<exists>ys. iterate_timeline (example_sim idle_strategy) 1 3 1 = Inr ys
     \<and> fst (get_timestamp_chain example_timeline 1 0) = None
     \<and> ys ! 0 = (0, 1, 1, 0, None)"
proof -
  have it: "iterate_timeline (example_sim idle_strategy) 1 3 1 =
     Inr [(0, 1, 1, 0, None),
          (1, 2, 120, 0, Some (OptionChain_init [example_quote 2 120] 1 (5 / 4) 0))]"
    by (simp add: iterate_timeline_def num_steps_def upt2 example_sim_def signal_at_def
      get_timestamp_chain_def example_timeline_def example_quote_def Let_def)
  have sg: "signal_at (sim_timing_signal (example_sim idle_strategy)) t = 0" for t
    by (simp add: example_sim_def signal_at_def)
  have tlc: "sim_chain_timeline (example_sim idle_strategy) = example_timeline"
    by (simp add: example_sim_def)
  have none: "\<forall>k. k \<le> (0::nat) \<longrightarrow>
      fst (get_timestamp_chain (sim_chain_timeline (example_sim idle_strategy)) (1 + int k * 1) 0) = None"
    by (simp add: tlc example_data)
  from initial_default [OF it _ none] it show ?thesis
    by (simp add: tlc example_data sg)
qed

section \<open>Properties of the interpolation\<close>

lemma clamp_fin:
  "\<exists>r. py_max (py_min (Fin hi) v) (Fin lo) = Fin r \<and> lo \<le> r \<and> r \<le> max lo hi"
  by (cases v) (auto simp: py_max_def py_min_def)

lemma skew_bounds:
  assumes "interpolate_skew_line strike strikes ivs margin = Inr r"
  shows "\<exists>v. r = Fin v \<and> Min (set ivs) \<le> v \<and> v \<le> max (Min (set ivs)) (margin * Max (set ivs))"
proof -
  from assms have ne: "ivs \<noteq> []"
    by (auto simp: interpolate_skew_line_def split: if_splits)
  with assms obtain iv where
    r: "r = py_max (py_min (Fin (Max (set ivs) * margin)) iv) (Fin (Min (set ivs)))"
    by (auto simp: interpolate_skew_line_def Let_def bind_err_def split: sum.splits)
  from clamp_fin [of "Max (set ivs) * margin" iv "Min (set ivs)"] r
  show ?thesis by (auto simp: mult.commute)
qed

lemma linear_interpolation_total:
  "length xs = length ys \<Longrightarrow> xs \<noteq> [] \<Longrightarrow> \<exists>v. linear_interpolation x xs ys = Inr v"
  by (simp add: linear_interpolation_def Let_def)

lemma skew_total:
  "length strikes = length ivs \<Longrightarrow> ivs \<noteq> [] \<Longrightarrow>
   \<exists>r. interpolate_skew_line strike strikes ivs margin = Inr r"
proof -
  assume len: "length strikes = length ivs" and ne: "ivs \<noteq> []"
  then have "strikes \<noteq> []" by auto
  with len obtain v where "linear_interpolation strike strikes (map Fin ivs) = Inr v"
    using linear_interpolation_total [of strikes "map Fin ivs" strike] by auto
  with ne show ?thesis
    by (simp add: interpolate_skew_line_def Let_def bind_err_def)
qed

lemma two_knots:
  "t1 < t2 \<Longrightarrow>
   linear_interpolation (Fin x) [t1, t2] [Fin y1, Fin y2] =
     Inr (Fin ((y2 - y1) / (t2 - t1) * (x - t1) + y1))"
  by (simp add: linear_interpolation_def Let_def fl_sub_def)

lemma bracket_variance_nonneg:
  fixes t1 t2 tau iv1 iv2 :: real
  assumes "0 < t1" "t1 \<le> tau" "tau \<le> t2" "t1 < t2"
  shows "0 \<le> (t1 * iv1\<^sup>2 + (t2 * iv2\<^sup>2 - t1 * iv1\<^sup>2) * (tau - t1) / (t2 - t1)) / tau"
proof -
  define w where "w = (tau - t1) / (t2 - t1)"
  have w: "0 \<le> w" "w \<le> 1" using assms by (simp_all add: w_def)
  have "t1 * iv1\<^sup>2 + (t2 * iv2\<^sup>2 - t1 * iv1\<^sup>2) * (tau - t1) / (t2 - t1)
        = (1 - w) * (t1 * iv1\<^sup>2) + w * (t2 * iv2\<^sup>2)"
  proof -
    have "(t2 * iv2\<^sup>2 - t1 * iv1\<^sup>2) * (tau - t1) / (t2 - t1) = (t2 * iv2\<^sup>2 - t1 * iv1\<^sup>2) * w"
      by (simp add: w_def)
    then show ?thesis by (simp add: algebra_simps)
  qed
  moreover have "0 \<le> (1 - w) * (t1 * iv1\<^sup>2)" using w assms by simp
  moreover have "0 \<le> w * (t2 * iv2\<^sup>2)" using w assms by simp
  ultimately have "0 \<le> t1 * iv1\<^sup>2 + (t2 * iv2\<^sup>2 - t1 * iv1\<^sup>2) * (tau - t1) / (t2 - t1)"
    by linarith
  then show ?thesis using assms by simp
qed

section \<open>Claims about the surface engine\<close>

subsection \<open>Bracket maturities\<close>

lemma exp_multiple_three: "exp_multiple_of three_maturity_table = [10, 20, 30]"
  by (simp add: exp_multiple_of_def three_maturity_table_def two_maturity_table_def example_row_def)

lemma exp_multiple_two: "exp_multiple_of two_maturity_table = [10, 20]"
  by (simp add: exp_multiple_of_def two_maturity_table_def example_row_def)

lemma length_two_maturity_table: "length two_maturity_table = 4"
  by (simp add: two_maturity_table_def)

text \<open>
  Beyond all maturities the two latest are chosen, before all of them the two earliest.
\<close>

lemma bracket_beyond_all:
  assumes "2 \<le> length xs" "\<forall>e\<in>set xs. e < exp_t"
  shows "bracket_exps xs exp_t = Inr (xs ! (length xs - 2), xs ! (length xs - 1))"
proof -
  have f: "filter (\<lambda>e. e < exp_t) xs = xs" "filter (\<lambda>e. e \<ge> exp_t) xs = []"
    using assms(2) by (auto simp: filter_empty_conv)
  have "nat (int (length xs) - 2) = length xs - 2" "nat (int (length xs) - 1) = length xs - 1"
    by simp_all
  with assms(1) show ?thesis
    unfolding bracket_exps_def f Let_def
    by (auto simp: py_index_def bind_err_def Let_def)
qed

lemma bracket_before_all:
  assumes "2 \<le> length xs" "\<forall>e\<in>set xs. exp_t \<le> e"
  shows "bracket_exps xs exp_t = Inr (xs ! 0, xs ! 1)"
proof -
  have f: "filter (\<lambda>e. e < exp_t) xs = []" "filter (\<lambda>e. e \<ge> exp_t) xs = xs"
    using assms(2) by (auto simp: filter_empty_conv)
  from assms(1) show ?thesis
    unfolding bracket_exps_def f Let_def
    by (auto simp: py_index_def bind_err_def Let_def)
qed

text \<open>
  Claim C1 (the code departs from it). With the maturities 10, 20 and 30 and the target
  15, the maturity just below is 10 and the one just above is 20, but
  \<^verbatim>\<open>later_exps[1]\<close> selects 30. With the maturities 10 and 20 only, the same index is out
  of range and the construction raises \<^verbatim>\<open>IndexError\<close>.
\<close>

theorem bracket_selection_skips_nearest_above:
  "exp_multiple_of three_maturity_table = [10, 20, 30]
   \<and> bracket_exps (exp_multiple_of three_maturity_table) 15 = Inr (10, 30)
   \<and> exp_multiple_of two_maturity_table = [10, 20]
   \<and> get_strike_iv_interpolator lib c two_maturity_table 15 Call = Inl IndexError"
proof -
  have a: "bracket_exps [10, 20, 30] 15 = Inr (10, 30)"
    by (simp add: bracket_exps_def py_index_def bind_err_def Let_def)
  have b: "bracket_exps [10, 20] 15 = Inl IndexError"
    by (simp add: bracket_exps_def py_index_def bind_err_def Let_def)
  have "get_strike_iv_interpolator lib c two_maturity_table 15 Call = Inl IndexError"
    unfolding get_strike_iv_interpolator_def exp_multiple_two Let_def
    by (simp add: b bind_err_def length_two_maturity_table)
  with a show ?thesis by (simp add: exp_multiple_three exp_multiple_two)
qed

subsection \<open>Strike searches\<close>

lemma stalling_delta_search:
  "get_price_by_delta stalling_lib example_chain (1 / 2) 7 Call Ask = Inr (Fin 5, Fin 100, Fin 1)"
  by (simp add: get_price_by_delta_def get_price_chain_def get_strike_iv_interpolator_def
      example_chain_def OptionChain_init_def example_quote_def mean_def side_price_def
      exp_multiple_of_def stalling_lib_def bind_err_def py_int_def fl_sub_def Let_def)

lemma stalling_price_search:
  "get_strike_by_price stalling_lib example_chain 7 7 Call Ask = Inr (Fin 7, Fin 5, Fin 1)"
  by (simp add: get_strike_by_price_def get_price_chain_def get_strike_iv_interpolator_def
      example_chain_def OptionChain_init_def example_quote_def mean_def side_price_def
      exp_multiple_of_def stalling_lib_def bind_err_def py_int_def fl_sub_def Let_def)

lemma stalling_lib_never_converges: "fsolve stalling_lib func x0 = Inr (x0, False)"
  by (simp add: stalling_lib_def)

lemma example_chain_spot: "oc_spot example_chain = Fin 100"
  by (simp add: example_chain_def OptionChain_init_def example_quote_def mean_def)

lemma example_build:
  "get_strike_iv_interpolator stalling_lib example_chain (get_price_chain example_chain Call Ask)
     604800 Call = Inr example_interp"
  by (simp add: get_price_chain_def get_strike_iv_interpolator_def
      example_chain_def OptionChain_init_def example_quote_def mean_def side_price_def
      exp_multiple_of_def example_interp_def fl_sub_def Let_def)

lemma example_exp: "604800 = py_int (7 * 24 * 60 * 60)"
  by (simp add: py_int_def)

lemma stalling_delta_residual:
  "delta_objective stalling_lib example_chain example_interp Call (604800 / 60 / 60 / 24 / 365.25) (1 / 2)
     (Fin 100) = Inr (Fin (- (1 / 4)))"
  by (simp add: delta_objective_def delta_interp_def example_interp_def stalling_lib_def
      bind_err_def fl_sub_def)

lemma stalling_price_residual:
  "price_objective stalling_lib example_chain example_interp Call (604800 / 60 / 60 / 24 / 365.25) 7
     (Fin 5) = Inr (Fin (- 2))"
  by (simp add: price_objective_def price_interp_def example_interp_def stalling_lib_def
      bind_err_def fl_sub_def)

text \<open>
  A root-finder that reports no convergence and hands back its starting point. The delta
  search (target delta 1/2, 7 days) still returns a triple, with the spot 100 as the
  strike, although the delta there misses the target by 1/4. The price search (target
  price 7) returns the strike 5, its starting guess, although the price there is 5, and
  it returns the target 7 as the price.
\<close>

theorem nonconvergence_not_surfaced_counterexample:
  "get_price_by_delta stalling_lib example_chain (1 / 2) 7 Call Ask = Inr (Fin 5, Fin 100, Fin 1)
   \<and> oc_spot example_chain = Fin 100
   \<and> fsolve stalling_lib
        (delta_objective stalling_lib example_chain example_interp Call
           (604800 / 60 / 60 / 24 / 365.25) (1 / 2)) (Fin 100) = Inr (Fin 100, False)
   \<and> delta_objective stalling_lib example_chain example_interp Call
        (604800 / 60 / 60 / 24 / 365.25) (1 / 2) (Fin 100) = Inr (Fin (- (1 / 4)))
   \<and> get_strike_by_price stalling_lib example_chain 7 7 Call Ask = Inr (Fin 7, Fin 5, Fin 1)
   \<and> fsolve stalling_lib
        (price_objective stalling_lib example_chain example_interp Call
           (604800 / 60 / 60 / 24 / 365.25) 7) (Fin 5) = Inr (Fin 5, False)
   \<and> price_objective stalling_lib example_chain example_interp Call
        (604800 / 60 / 60 / 24 / 365.25) 7 (Fin 5) = Inr (Fin (- 2))"
  using stalling_delta_search stalling_price_search stalling_delta_residual stalling_price_residual
    example_chain_spot stalling_lib_never_converges
  by simp

text \<open>
  Claim C2, as amended. Write \<open>build\<close> for the construction of the interpolator, \<open>tau\<close> for
  the tenor in years. \<open>get_price_by_delta\<close> runs the root-finder on
  \<^verbatim>\<open>delta_interp(k) - delta\<close> from the spot and takes what it hands back as the strike,
  whether or not it converged; it returns the Black-Scholes price at that strike and at
  the interpolated volatility of that strike, the strike, and that volatility.
  \<open>get_strike_by_price\<close> runs the root-finder on \<^verbatim>\<open>price_interp(k) - price\<close> from the price at
  the spot and takes what it hands back as the strike, whether or not it converged; it
  returns the target price as given (not the price at the returned strike), the strike,
  and the interpolated volatility of that strike. A search fails exactly when one of its
  parts raises, with that error: the construction of the interpolator, the starting price
  (price search), the root-finder, the interpolator at the returned strike, the pricing
  at the returned strike (delta search).
\<close>

theorem strike_searches_return_solver_iterate:
  assumes exp_t: "exp_t = py_int (days_to_maturity * 24 * 60 * 60)"
    and tau: "tau = real_of_int exp_t / 60 / 60 / 24 / 365.25"
    and build: "build = get_strike_iv_interpolator lib c (get_price_chain c option_type sd) exp_t option_type"
  shows
   "(build = Inl e \<longrightarrow>
       get_price_by_delta lib c delta days_to_maturity option_type sd = Inl e)
  \<and> (build = Inr iv_interp
      \<and> fsolve lib (delta_objective lib c iv_interp option_type tau delta) (oc_spot c) = Inl e \<longrightarrow>
       get_price_by_delta lib c delta days_to_maturity option_type sd = Inl e)
  \<and> (build = Inr iv_interp
      \<and> fsolve lib (delta_objective lib c iv_interp option_type tau delta) (oc_spot c)
          = Inr (strike, converged)
      \<and> iv_interp strike = Inl e \<longrightarrow>
       get_price_by_delta lib c delta days_to_maturity option_type sd = Inl e)
  \<and> (build = Inr iv_interp
      \<and> fsolve lib (delta_objective lib c iv_interp option_type tau delta) (oc_spot c)
          = Inr (strike, converged)
      \<and> iv_interp strike = Inr iv
      \<and> black_scholes lib option_type (oc_spot c) strike tau (oc_rf c) iv = Inl e \<longrightarrow>
       get_price_by_delta lib c delta days_to_maturity option_type sd = Inl e)
  \<and> (build = Inr iv_interp
      \<and> fsolve lib (delta_objective lib c iv_interp option_type tau delta) (oc_spot c)
          = Inr (strike, converged)
      \<and> iv_interp strike = Inr iv
      \<and> black_scholes lib option_type (oc_spot c) strike tau (oc_rf c) iv = Inr p \<longrightarrow>
       get_price_by_delta lib c delta days_to_maturity option_type sd = Inr (p, strike, iv))
  \<and> (build = Inl e \<longrightarrow>
       get_strike_by_price lib c price days_to_maturity option_type sd = Inl e)
  \<and> (build = Inr iv_interp
      \<and> price_interp lib c iv_interp option_type tau (oc_spot c) = Inl e \<longrightarrow>
       get_strike_by_price lib c price days_to_maturity option_type sd = Inl e)
  \<and> (build = Inr iv_interp
      \<and> price_interp lib c iv_interp option_type tau (oc_spot c) = Inr price_guess
      \<and> fsolve lib (price_objective lib c iv_interp option_type tau price) price_guess = Inl e \<longrightarrow>
       get_strike_by_price lib c price days_to_maturity option_type sd = Inl e)
  \<and> (build = Inr iv_interp
      \<and> price_interp lib c iv_interp option_type tau (oc_spot c) = Inr price_guess
      \<and> fsolve lib (price_objective lib c iv_interp option_type tau price) price_guess
          = Inr (strike', converged')
      \<and> iv_interp strike' = Inl e \<longrightarrow>
       get_strike_by_price lib c price days_to_maturity option_type sd = Inl e)
  \<and> (build = Inr iv_interp
      \<and> price_interp lib c iv_interp option_type tau (oc_spot c) = Inr price_guess
      \<and> fsolve lib (price_objective lib c iv_interp option_type tau price) price_guess
          = Inr (strike', converged')
      \<and> iv_interp strike' = Inr iv' \<longrightarrow>
       get_strike_by_price lib c price days_to_maturity option_type sd = Inr (Fin price, strike', iv'))"
proof -
  have d: "get_price_by_delta lib c delta days_to_maturity option_type sd =
      bind_err build (\<lambda>iv_interp.
        bind_err (fsolve lib (delta_objective lib c iv_interp option_type tau delta) (oc_spot c))
          (\<lambda>(strike, converged).
             bind_err (iv_interp strike) (\<lambda>iv.
             bind_err (black_scholes lib option_type (oc_spot c) strike tau (oc_rf c) iv) (\<lambda>price.
               Inr (price, strike, iv)))))"
    unfolding get_price_by_delta_def Let_def delta_objective_def delta_interp_def exp_t tau build
    by (rule refl)
  have p: "get_strike_by_price lib c price days_to_maturity option_type sd =
      bind_err build (\<lambda>iv_interp.
        bind_err (price_interp lib c iv_interp option_type tau (oc_spot c)) (\<lambda>price_guess.
        bind_err (fsolve lib (price_objective lib c iv_interp option_type tau price) price_guess)
          (\<lambda>(strike, converged).
             bind_err (iv_interp strike) (\<lambda>iv. Inr (Fin price, strike, iv)))))"
    unfolding get_strike_by_price_def Let_def price_objective_def price_interp_def exp_t tau build
    by (rule refl)
  show ?thesis
    unfolding d p by (simp add: bind_err_def)
qed

theorem strike_searches_return_solver_iterate_witness:
  "get_strike_iv_interpolator stalling_lib example_chain (get_price_chain example_chain Call Ask)
     604800 Call = Inr example_interp
   \<and> fsolve stalling_lib
        (delta_objective stalling_lib example_chain example_interp Call
           (604800 / 60 / 60 / 24 / 365.25) (1 / 2)) (oc_spot example_chain) = Inr (Fin 100, False)
   \<and> example_interp (Fin 100) = Inr (Fin 1)
   \<and> black_scholes stalling_lib Call (oc_spot example_chain) (Fin 100)
        (604800 / 60 / 60 / 24 / 365.25) (oc_rf example_chain) (Fin 1) = Inr (Fin 5)
   \<and> get_price_by_delta stalling_lib example_chain (1 / 2) 7 Call Ask = Inr (Fin 5, Fin 100, Fin 1)
   \<and> price_interp stalling_lib example_chain example_interp Call
        (604800 / 60 / 60 / 24 / 365.25) (oc_spot example_chain) = Inr (Fin 5)
   \<and> fsolve stalling_lib
        (price_objective stalling_lib example_chain example_interp Call
           (604800 / 60 / 60 / 24 / 365.25) 7) (Fin 5) = Inr (Fin 5, False)
   \<and> example_interp (Fin 5) = Inr (Fin 1)
   \<and> get_strike_by_price stalling_lib example_chain 7 7 Call Ask = Inr (Fin 7, Fin 5, Fin 1)"
proof -
  have spot: "oc_spot example_chain = Fin 100"
    by (simp add: example_chain_def OptionChain_init_def example_quote_def mean_def)
  have s1: "fsolve stalling_lib func x0 = Inr (x0, False)" for func x0
    by (simp add: stalling_lib_def)
  have i: "example_interp k = Inr (Fin 1)" for k by (simp add: example_interp_def)
  have bs: "black_scholes stalling_lib Call S K t r sigma = Inr (Fin 5)" for S K t r sigma
    by (simp add: stalling_lib_def)
  have pg: "price_interp stalling_lib example_chain example_interp Call t k = Inr (Fin 5)" for t k
    by (simp add: price_interp_def i bs bind_err_def)
  from strike_searches_return_solver_iterate
         [of 604800 7 "604800 / 60 / 60 / 24 / 365.25"
             "get_strike_iv_interpolator stalling_lib example_chain
                (get_price_chain example_chain Call Ask) 604800 Call"
             stalling_lib example_chain Call Ask LibraryError "1 / 2" example_interp
             "Fin 100" False "Fin 1" "Fin 5" 7 "Fin 5" "Fin 5" False "Fin 1"]
       example_build example_exp
  show ?thesis by (simp add: spot s1 i bs pg)
qed

subsection \<open>Quotes that cannot be inverted\<close>

lemma invert_quotes_drops_failures:
  "invert_quotes lib spot flag rows =
     (let ok = filter (\<lambda>row. \<exists>v. imp_vol_bsm lib (pr_p row) spot (pr_K row)
                                   (real_of_int (pr_exp row) / 31536000) 0 flag = Inr v) rows
      in (map pr_K ok,
          map (\<lambda>row. (case imp_vol_bsm lib (pr_p row) spot (pr_K row)
                              (real_of_int (pr_exp row) / 31536000) 0 flag of
                         Inr v \<Rightarrow> v * pr_iv_ratio row | Inl e \<Rightarrow> 0)) ok))"
  by (induction rows) (auto simp: Let_def split: sum.splits prod.splits)

lemma interpolator_build_errors:
  "get_strike_iv_interpolator lib c price_chain exp_t option_type = Inl e \<Longrightarrow>
   bracket_exps (exp_multiple_of price_chain) exp_t = Inl e"
  by (auto simp: get_strike_iv_interpolator_def Let_def bind_err_def
      split: if_splits sum.splits prod.splits)

lemma bracket_two_before: "bracket_exps [10, 20] 5 = Inr (10, 20)"
  by (simp add: bracket_exps_def py_index_def bind_err_def Let_def)

lemma invert_lo_all_fail:
  "invert_quotes stalling_lib spot flag
     (sort_key pr_K (filter (\<lambda>r. pr_exp r = 10) two_maturity_table)) = ([], [])"
  by (simp add: two_maturity_table_def example_row_def stalling_lib_def Let_def)

lemma invert_hi_ok:
  "invert_quotes stalling_lib spot flag
     (sort_key pr_K (filter (\<lambda>r. pr_exp r = 20) two_maturity_table)) = ([90, 110], [1 / 2, 1 / 2])"
  by (simp add: two_maturity_table_def example_row_def stalling_lib_def Let_def)

text \<open>
  Claim C3 (the code departs from it). The quotes of maturity 10 all fail inversion and
  are dropped, and the build returns an interpolator; but the skew line of maturity 10
  is then empty, \<^verbatim>\<open>ivs.max()\<close> raises \<^verbatim>\<open>ValueError\<close>, and no strike gets an implied volatility.
\<close>

theorem all_quotes_dropped_breaks_every_query:
  "\<exists>f. get_strike_iv_interpolator stalling_lib c two_maturity_table 5 Call = Inr f
       \<and> (\<forall>strike. f strike = Inl ValueError)"
  unfolding get_strike_iv_interpolator_def exp_multiple_two Let_def
  by (simp add: length_two_maturity_table bracket_two_before invert_lo_all_fail invert_hi_ok
      bind_err_def interpolate_skew_line_def)

subsection \<open>Skew line and term structure\<close>

text \<open>
  With a margin of 1/2 and a flat skew at 1 the result is 1, above margin times the
  largest implied volatility.
\<close>

theorem skew_line_clamp_counterexample:
  "interpolate_skew_line (Fin 1) [1, 2] [1, 1] (1 / 2) = Inr (Fin 1)
   \<and> (1 / 2) * Max (set [1, 1 :: real]) < 1"
  by (simp add: interpolate_skew_line_def linear_interpolation_def bind_err_def Let_def
      fl_sub_def py_min_def py_max_def)

text \<open>
  Claim C4, as amended. Whenever the skew-line interpolation returns, for any strike
  (inside or outside the quoted range, even \<^verbatim>\<open>nan\<close>), the result is a finite number, at least
  the smallest observed implied volatility and at most the larger of that minimum and
  margin times the largest one; so it is at most margin times the largest one whenever
  the minimum is, in particular when the margin is at least 1 and no implied volatility
  is negative. It does return for two or more pairs.
\<close>

theorem skew_line_clamp:
  "(interpolate_skew_line strike strikes ivs margin = Inr r \<longrightarrow>
      (\<exists>v. r = Fin v \<and> Min (set ivs) \<le> v
           \<and> v \<le> max (Min (set ivs)) (margin * Max (set ivs))
           \<and> (Min (set ivs) \<le> margin * Max (set ivs) \<longrightarrow> v \<le> margin * Max (set ivs))
           \<and> (1 \<le> margin \<and> (\<forall>x\<in>set ivs. 0 \<le> x) \<longrightarrow> v \<le> margin * Max (set ivs))))
   \<and> (length strikes = length ivs \<and> 2 \<le> length ivs \<longrightarrow>
        (\<exists>r. interpolate_skew_line strike strikes ivs margin = Inr r))"
proof -
  have tot: "\<exists>r. interpolate_skew_line strike strikes ivs margin = Inr r"
    if "length strikes = length ivs" "2 \<le> length ivs"
  proof -
    from that have "ivs \<noteq> []" by auto
    with that show ?thesis using skew_total [of strikes ivs strike margin] by blast
  qed
  have bnd: "\<exists>v. r = Fin v \<and> Min (set ivs) \<le> v
           \<and> v \<le> max (Min (set ivs)) (margin * Max (set ivs))
           \<and> (Min (set ivs) \<le> margin * Max (set ivs) \<longrightarrow> v \<le> margin * Max (set ivs))
           \<and> (1 \<le> margin \<and> (\<forall>x\<in>set ivs. 0 \<le> x) \<longrightarrow> v \<le> margin * Max (set ivs))"
    if res: "interpolate_skew_line strike strikes ivs margin = Inr r"
  proof -
    from res have ne: "ivs \<noteq> []"
      by (auto simp: interpolate_skew_line_def split: if_splits)
    from skew_bounds [OF res] obtain v where
      v: "r = Fin v" "Min (set ivs) \<le> v" "v \<le> max (Min (set ivs)) (margin * Max (set ivs))"
      by blast
    have le: "Min (set ivs) \<le> margin * Max (set ivs)"
      if m: "1 \<le> margin" and nn: "\<forall>x\<in>set ivs. 0 \<le> x"
    proof -
      have "Max (set ivs) \<in> set ivs" using ne by (simp add: Max_in)
      then have "0 \<le> Max (set ivs)" using nn by blast
      then have "Max (set ivs) \<le> margin * Max (set ivs)"
        using m by (simp add: mult_le_cancel_right1)
      moreover have "Min (set ivs) \<le> Max (set ivs)" using ne by simp
      ultimately show ?thesis by linarith
    qed
    from v le show ?thesis by auto
  qed
  from tot bnd show ?thesis by blast
qed

theorem skew_line_clamp_witness:
  "interpolate_skew_line (Fin 5) [1, 2] [1, 3] (5 / 4) = Inr (Fin (15 / 4))
   \<and> Min (set [1, 3 :: real]) \<le> 15 / 4 \<and> 15 / 4 \<le> (5 / 4) * Max (set [1, 3 :: real])
   \<and> (1::real) \<le> 5 / 4 \<and> (0::real) \<le> 1 \<and> (0::real) \<le> 3
   \<and> length [1, 2 :: real] = length [1, 3 :: real] \<and> 2 \<le> length [1, 3 :: real]"
proof -
  have ev: "interpolate_skew_line (Fin 5) [1, 2] [1, 3] (5 / 4) = Inr (Fin (15 / 4))"
    by (simp add: interpolate_skew_line_def linear_interpolation_def bind_err_def Let_def
        fl_sub_def py_min_def py_max_def)
  from skew_line_clamp [of "Fin 5" "[1, 2]" "[1, 3]" "5 / 4" "Fin (15 / 4)"] ev
  show ?thesis by simp
qed

text \<open>
  With the tenors 7 and 14, the volatilities 0.5 and 0.55 and the target tenor 1, the
  line through the two variances is negative at the target, and the interpolation raises
  instead of returning.
\<close>

theorem term_structure_domain_error_counterexample:
  "interpolate_term_structure 1 [7, 14] [Fin (1 / 2), Fin (11 / 20)] = Inl ValueError"
  by (simp add: interpolate_term_structure_def Let_def bind_err_def two_knots power2_eq_square)

text \<open>
  Claim C5, as amended. For bracket tenors \<open>t1 < t2\<close> with skew-line volatilities \<open>iv1\<close>,
  \<open>iv2\<close> and a target tenor \<open>tau\<close> other than 0, let \<open>v\<close> be the value at \<open>tau\<close> of the line
  through \<open>(t1, t1 * iv1\<^sup>2)\<close> and \<open>(t2, t2 * iv2\<^sup>2)\<close>. The term-structure interpolation
  returns \<open>sqrt (v / tau)\<close> when \<open>v / tau\<close> is not negative, which is always so for a target
  inside a bracket of positive tenors; when \<open>v / tau\<close> is negative, \<^verbatim>\<open>math.sqrt\<close> raises
  \<^verbatim>\<open>ValueError\<close>.
\<close>

theorem term_structure_variance_time:
  assumes "t1 < t2" "tau \<noteq> 0"
  shows "interpolate_term_structure tau [t1, t2] [Fin iv1, Fin iv2] =
           (let v = t1 * iv1\<^sup>2 + (t2 * iv2\<^sup>2 - t1 * iv1\<^sup>2) * (tau - t1) / (t2 - t1)
            in if v / tau < 0 then Inl ValueError else Inr (Fin (sqrt (v / tau))))
       \<and> (0 < t1 \<and> t1 \<le> tau \<and> tau \<le> t2 \<longrightarrow>
           interpolate_term_structure tau [t1, t2] [Fin iv1, Fin iv2] =
             Inr (Fin (sqrt ((t1 * iv1\<^sup>2 + (t2 * iv2\<^sup>2 - t1 * iv1\<^sup>2) * (tau - t1) / (t2 - t1)) / tau))))"
proof -
  have eq: "interpolate_term_structure tau [t1, t2] [Fin iv1, Fin iv2] =
           (let v = t1 * iv1\<^sup>2 + (t2 * iv2\<^sup>2 - t1 * iv1\<^sup>2) * (tau - t1) / (t2 - t1)
            in if v / tau < 0 then Inl ValueError else Inr (Fin (sqrt (v / tau))))"
    using assms
    by (simp add: interpolate_term_structure_def Let_def bind_err_def two_knots
        power2_eq_square add.commute)
  have "\<not> (t1 * iv1\<^sup>2 + (t2 * iv2\<^sup>2 - t1 * iv1\<^sup>2) * (tau - t1) / (t2 - t1)) / tau < 0"
    if "0 < t1 \<and> t1 \<le> tau \<and> tau \<le> t2"
    using bracket_variance_nonneg [of t1 tau t2 iv1 iv2] that assms by simp
  with eq show ?thesis by (simp add: Let_def)
qed

theorem term_structure_variance_time_witness:
  "(7::real) < 30 \<and> (14::real) \<noteq> 0
   \<and> interpolate_term_structure 14 [7, 30] [Fin (1 / 2), Fin (7 / 10)] = Inr (Fin (sqrt (1309 / 3220)))
   \<and> 1 / 2 < sqrt (1309 / 3220) \<and> sqrt (1309 / 3220) < 7 / 10
   \<and> sqrt (1309 / 3220) \<noteq> 1 / 2 + (7 / 10 - 1 / 2) * (14 - 7) / (30 - 7)"
proof -
  have lo: "3 / 5 < sqrt (1309 / 3220)"
    by (rule real_less_rsqrt) (simp add: power2_eq_square)
  have hi: "sqrt (1309 / 3220) < 7 / 10"
    by (rule real_less_lsqrt) (simp_all add: power2_eq_square)
  from term_structure_variance_time [of 7 30 14 "1 / 2" "7 / 10"] lo hi
  show ?thesis by (simp add: power2_eq_square Let_def)
qed

end
